theory Spec2Isabelle
  imports Main "HOL-Library.Word"
begin

section \<open>Data model\<close>

text \<open>
  The credential lifecycle of the ivcap command line client: provider discovery, the
  device-code poller, the refresh path and the context store (\<^verbatim>\<open>cmd/login.go\<close> and the
  root command file that holds \<^verbatim>\<open>Config\<close>, \<^verbatim>\<open>Context\<close>, \<^verbatim>\<open>GetContext\<close> and
  \<^verbatim>\<open>SetContext\<close>).

  Go's \<^verbatim>\<open>int64\<close> is a 64-bit word, read as two's complement by \<open>sint\<close>. A
  \<^verbatim>\<open>time.Time\<close> is an instant, counted in nanoseconds as an unbounded integer; a
  \<^verbatim>\<open>time.Duration\<close> is an \<^verbatim>\<open>int64\<close> count of nanoseconds.
\<close>

type_synonym int64 = "64 word"
type_synonym Time = int
type_synonym Duration = int64

text \<open>
  Messages are kept as the format string and its arguments, as the calls of
  \<^verbatim>\<open>fmt.Errorf\<close> and \<^verbatim>\<open>fmt.Sprintf\<close> give them. \<open>StatusText\<close> stands for the text
  the \<^verbatim>\<open>net/http\<close> table has for a status code.
\<close>

datatype fmt_arg = ArgStr string | ArgInt int | StatusText int | ArgErr formatted
and formatted = Format string "fmt_arg list"

type_synonym error = formatted

definition Errorf :: "string \<Rightarrow> fmt_arg list \<Rightarrow> error" where
  "Errorf f args = Format f args"

definition Sprintf :: "string \<Rightarrow> fmt_arg list \<Rightarrow> formatted" where
  "Sprintf f args = Format f args"

text \<open>
  A call either returns, or ends the process: \<^verbatim>\<open>cobra.CheckErr\<close> with a message prints
  it and calls \<^verbatim>\<open>os.Exit(1)\<close>; a \<^verbatim>\<open>panic\<close> or a nil dereference unwinds the stack.
\<close>

datatype 'a outcome = Returns 'a | Exits formatted | Panics

record Context =
  ApiVersion :: int
  Name :: string
  URL :: string
  AccountID :: string
  ProviderID :: string
  Host :: string
  AccountName :: string
  AccountNickName :: string
  Email :: string
  AccessToken :: string
  AccessTokenExpiry :: Time
  RefreshToken :: string

record Config =
  Version :: string
  ActiveContext :: string
  Contexts :: "Context list"

record AuthProvider =
  ID :: string
  LoginURL :: string
  TokenURL :: string
  CodeURL :: string
  JwksURL :: string
  ClientID :: string
  audience :: string
  scopes :: string
  grantType :: string

text \<open>
  \<^verbatim>\<open>AuthProviders\<close> is a Go map; it is kept as an association list read with
  \<open>map_of\<close>, and \<^verbatim>\<open>len(m) != 0\<close> is \<open>m \<noteq> []\<close>.
\<close>

record AuthInfo =
  AuthInfo_Version :: string
  DefaultProviderId :: string
  AuthProviders :: "(string \<times> AuthProvider) list"

record DeviceCode =
  dc_DeviceCode :: string
  UserCode :: string
  VerificationURL :: string
  VerificationURLComplete :: string
  dc_ExpiresIn :: int64
  Interval :: int64

record CustomIdClaims =
  claims_Name :: string
  claims_Nickname :: string
  claims_Email :: string
  claims_EmailVerified :: bool
  claims_Picture :: string
  claims_AccountID :: string

text \<open>
  \<^verbatim>\<open>deviceTokenResponse\<close> embeds a pointer \<^verbatim>\<open>*oauth2.Token\<close>: the JSON decoder
  allocates it only when the document has one of its keys, so it may be nil, and reading
  \<^verbatim>\<open>tokenResponse.AccessToken\<close> through a nil pointer panics.
\<close>

record oauth2_Token =
  tok_AccessToken :: string
  tok_TokenType :: string
  tok_RefreshToken :: string
  tok_Expiry :: Time

record deviceTokenResponse =
  Token :: "oauth2_Token option"
  IDToken :: string
  Scope :: string
  ExpiresIn :: int64
  ErrorString :: string

subsection \<open>The world outside the process\<close>

text \<open>
  The configuration file is read and written whole. What \<^verbatim>\<open>ioutil.ReadFile\<close> and
  \<^verbatim>\<open>yaml.Unmarshal\<close> make of it is one of: no such file (a \<^verbatim>\<open>*os.PathError\<close>),
  another read error, text that does not parse, or a \<^verbatim>\<open>Config\<close>. Marshalling a
  \<^verbatim>\<open>Config\<close> and parsing it back is taken to give the same \<^verbatim>\<open>Config\<close>.
\<close>

datatype file_state = PathError string | ReadError string | Unparseable string | Stored Config

datatype write_fault = MarshalError string | WriteError string

datatype request =
  Get string
| PostForm string "(string \<times> string) list"
| JwksGet string

record world =
  config_path :: string
  config_file :: file_state
  write_fault :: "write_fault option"
  requests :: "request list"
  slept :: "Duration list"

text \<open>An HTTP exchange: the transport fails, or a status code and a decoded body arrive.\<close>

datatype 'a decoded = DecodeError string | Decoded 'a

datatype 'a http_result = TransportError string | Response int "'a decoded"

text \<open>
  The dynamic value of an \<^verbatim>\<open>interface{}\<close> read from a YAML map: \<^verbatim>\<open>v == true\<close> holds
  for \<open>IBool True\<close> only and \<^verbatim>\<open>v == 1\<close> for \<open>IInt 1\<close> only.
\<close>

datatype iface = INil | IBool bool | IInt int | IString string | IOther

text \<open>
  \<^verbatim>\<open>responseMap\<close>, the discovery document as a generic map: the values under the keys
  \<^verbatim>\<open>fault\<close> and \<^verbatim>\<open>version\<close> (\<open>None\<close> for a missing key), and what marshalling the value
  under \<^verbatim>\<open>auth\<close> and unmarshalling it into an \<^verbatim>\<open>AuthInfo\<close> gives.
\<close>

datatype auth_decode = MarshalFails | UnmarshalFails | Auth AuthInfo

record responseMap =
  fault :: "iface option"
  version :: "iface option"
  auth :: auth_decode

text \<open>
  What \<^verbatim>\<open>jwt.ParseWithClaims\<close> returns for an identity token: an error, with what
  \<^verbatim>\<open>errors.Is\<close> answers for the three sentinel errors the code asks about, or a
  token (possibly nil) with its claims (\<open>None\<close> when they are not a
  \<^verbatim>\<open>*CustomIdClaims\<close>) and its \<^verbatim>\<open>Valid\<close> flag. A key set is what
  \<^verbatim>\<open>keyfunc.Get\<close> fetched from a URL.
\<close>

datatype JWKS = KeySet string

record jwt_error =
  is_ErrTokenMalformed :: bool
  is_ErrTokenExpired :: bool
  is_ErrTokenNotValidYet :: bool
  jwt_message :: string

record jwt_Token =
  Claims :: "CustomIdClaims option"
  Valid :: bool

datatype jwt_result = JwtError jwt_error | JwtToken "jwt_Token option"

text \<open>
  Everything a run reads from outside: the \<^verbatim>\<open>--context\<close> flag, the clock at the expiry
  check and at the credential update, the answers of the discovery, device-code and token
  endpoints (the poller's in the order they arrive), whether the QR code could be
  built, the key set \<^verbatim>\<open>keyfunc.Get\<close> returns for a URL (\<open>None\<close> when the fetch fails
  and the call returns a nil key set with its error), the error an identity token meets
  before its key is looked up, if any, and the verdict on an identity token under a key
  set.
\<close>

record env =
  contextName :: string
  now_at_check :: Time
  now_at_update :: Time
  discovery_get :: "string \<Rightarrow> responseMap http_result"
  code_post :: "string \<Rightarrow> (string \<times> string) list \<Rightarrow> DeviceCode http_result"
  token_post :: "string \<Rightarrow> (string \<times> string) list \<Rightarrow> deviceTokenResponse http_result"
  token_polls :: "deviceTokenResponse http_result list"
  qrcode_New :: "string \<Rightarrow> bool"
  keyfunc_Get :: "string \<Rightarrow> JWKS option"
  jwt_before_keys :: "string \<Rightarrow> jwt_error option"
  jwt_verify :: "JWKS \<Rightarrow> string \<Rightarrow> jwt_result"

section \<open>The context store\<close>

text \<open>
  \<^verbatim>\<open>ReadConfigFile\<close> returns the configuration, a fresh one of version v1 when the
  file does not exist and \<^verbatim>\<open>createIfNoConfig\<close> is set; every other failure ends the
  process. \<^verbatim>\<open>WriteConfigFile\<close> replaces the content of the file, or ends the process
  when marshalling or writing fails; a failed write is taken to leave the file as it
  was.
\<close>

definition ReadConfigFile :: "bool \<Rightarrow> world \<Rightarrow> Config outcome" where
  "ReadConfigFile createIfNoConfig w =
     (case config_file w of
        PathError e \<Rightarrow>
          if createIfNoConfig
          then Returns \<lparr>Version = ''v1'', ActiveContext = [], Contexts = []\<rparr>
          else Exits (Format ''Config file does not exist. Please create the config file with the context command.'' [])
      | ReadError e \<Rightarrow>
          Exits (Sprintf ''Cannot read config file %s - %v'' [ArgStr (config_path w), ArgStr e])
      | Unparseable e \<Rightarrow>
          Exits (Sprintf ''problems parsing config file %s - %v'' [ArgStr (config_path w), ArgStr e])
      | Stored cfg \<Rightarrow> Returns cfg)"

definition WriteConfigFile :: "Config \<Rightarrow> world \<Rightarrow> unit outcome \<times> world" where
  "WriteConfigFile config w =
     (case write_fault w of
        Some (MarshalError e) \<Rightarrow>
          (Exits (Sprintf ''cannot marshall content of config file - %v'' [ArgStr e]), w)
      | Some (WriteError e) \<Rightarrow>
          (Exits (Sprintf ''cannot write to config file %s - %v'' [ArgStr (config_path w), ArgStr e]), w)
      | None \<Rightarrow> (Returns (), w\<lparr>config_file := Stored config\<rparr>))"

text \<open>
  The loop of \<^verbatim>\<open>GetContext\<close>: the first context of that name, \<open>None\<close> when the loop
  runs to its end.
\<close>

fun GetContext_loop :: "string \<Rightarrow> Context list \<Rightarrow> Context option" where
  "GetContext_loop name [] = None"
| "GetContext_loop name (d # ds) =
     (if Name d = name then Some d else GetContext_loop name ds)"

definition GetContext :: "string \<Rightarrow> bool \<Rightarrow> world \<Rightarrow> Context option outcome" where
  "GetContext name0 defaultToActiveContext w =
     (case ReadConfigFile True w of
        Exits m \<Rightarrow> Exits m
      | Panics \<Rightarrow> Panics
      | Returns config \<Rightarrow>
          (let name = (if name0 = [] \<and> defaultToActiveContext
                       then ActiveContext config else name0)
           in if name = []
              then Exits (Format ''Cannot find suitable context. Use '--context' or set default via 'context' command'' [])
              else (case GetContext_loop name (Contexts config) of
                      Some d \<Rightarrow> Returns (Some d)
                    | None \<Rightarrow>
                        Exits (Sprintf (''unknown context '%s' in config '%s'' @ [CHR 0x27])
                                 [ArgStr name, ArgStr (config_path w)]))))"

definition GetActiveContext :: "env \<Rightarrow> world \<Rightarrow> Context option outcome" where
  "GetActiveContext e w = GetContext (contextName e) True w"

text \<open>
  The loop of \<^verbatim>\<open>SetContext\<close>: the first context of that name is overwritten and the
  loop ends there; \<open>None\<close> when no context has the name.
\<close>

fun SetContext_loop :: "Context \<Rightarrow> Context list \<Rightarrow> Context list option" where
  "SetContext_loop ctxt [] = None"
| "SetContext_loop ctxt (c # cs) =
     (if Name c = Name ctxt then Some (ctxt # cs)
      else map_option ((#) c) (SetContext_loop ctxt cs))"

definition SetContext :: "Context \<Rightarrow> bool \<Rightarrow> world \<Rightarrow> unit outcome \<times> world" where
  "SetContext ctxt failIfNotExist w =
     (case ReadConfigFile True w of
        Exits m \<Rightarrow> (Exits m, w)
      | Panics \<Rightarrow> (Panics, w)
      | Returns config \<Rightarrow>
          (case SetContext_loop ctxt (Contexts config) of
             Some cxa \<Rightarrow> WriteConfigFile (config\<lparr>Contexts := cxa\<rparr>) w
           | None \<Rightarrow>
               if failIfNotExist
               then (Exits (Sprintf (''attempting to set/update non existing context '%s'' @ [CHR 0x27])
                              [ArgStr (Name ctxt)]), w)
               else (let config1 = config\<lparr>Contexts := Contexts config @ [ctxt]\<rparr>;
                         config2 = (if length (Contexts config1) = 1
                                    then config1\<lparr>ActiveContext := Name ctxt\<rparr> else config1)
                     in WriteConfigFile config2 w)))"

section \<open>Provider discovery\<close>

definition GetDefaultProvider :: "AuthInfo \<Rightarrow> error + AuthProvider" where
  "GetDefaultProvider authInfo =
     (case map_of (AuthProviders authInfo) (DefaultProviderId authInfo) of
        Some defaultProvider \<Rightarrow> Inr defaultProvider
      | None \<Rightarrow> Inl (Errorf ''Default Provider Id does not exist'' []))"

text \<open>
  \<^verbatim>\<open>getLoginInformation\<close> returns \<^verbatim>\<open>(provider, nil)\<close> or \<^verbatim>\<open>(nil, err)\<close>, here
  \<open>Inr provider\<close> or \<open>Inl err\<close>. A document without a \<^verbatim>\<open>version\<close> key reaches
  \<^verbatim>\<open>panic(1)\<close>; the \<^verbatim>\<open>return\<close> written after it is never run. The status code of
  the response is not looked at.
\<close>

definition getLoginInformation ::
  "env \<Rightarrow> Context option \<Rightarrow> world \<Rightarrow> (error + AuthProvider) outcome \<times> world" where
  "getLoginInformation e ctxt w =
     (case ctxt of
        None \<Rightarrow>
          (Returns (Inl (Errorf ''Invalid config set. Please set a valid config with the config command.'' [])), w)
      | Some c \<Rightarrow>
          (let url = URL c @ ''/1/authinfo.yaml'';
               w1 = w\<lparr>requests := requests w @ [Get url]\<rparr>
           in case discovery_get e url of
                TransportError err \<Rightarrow>
                  (Returns (Inl (Errorf ''Cannot request login info - %s'' [ArgStr err])), w1)
              | Response status body \<Rightarrow>
                  (case body of
                     DecodeError err \<Rightarrow>
                       (Returns (Inl (Errorf ''unknown response from Login Service'' [])), w1)
                   | Decoded responseMap \<Rightarrow>
                       if fault responseMap = Some (IBool True)
                       then (Returns (Inl (Errorf ''login service has returned a fault'' [])), w1)
                       else (case version responseMap of
                               None \<Rightarrow> (Panics, w1)
                             | Some versionNum \<Rightarrow>
                                 if versionNum = IInt 1
                                 then (case auth responseMap of
                                         MarshalFails \<Rightarrow>
                                           (Returns (Inl (Errorf ''could not process login service response'' [])), w1)
                                       | UnmarshalFails \<Rightarrow>
                                           (Returns (Inl (Errorf ''could not process login service response (auth providers)'' [])), w1)
                                       | Auth authInfo \<Rightarrow>
                                           if AuthProviders authInfo \<noteq> []
                                           then (case GetDefaultProvider authInfo of
                                                   Inl err \<Rightarrow>
                                                     (Returns (Inl (Errorf ''Login Service returned invalid data (No Default Provider)'' [])), w1)
                                                 | Inr defaultProvider \<Rightarrow>
                                                     (Returns (Inr defaultProvider), w1))
                                           else (Returns (Inl (Errorf ''Login Service returned invalid data (No Providers)'' [])), w1))
                                 else (Returns (Inl (Errorf ''client out of date: Please update this application'' [])), w1)))))"

section \<open>The device-code flow\<close>

definition requestDeviceCode ::
  "env \<Rightarrow> AuthProvider \<Rightarrow> world \<Rightarrow> (error + DeviceCode) outcome \<times> world" where
  "requestDeviceCode e authProvider w =
     (let form = [(''client_id'', ClientID authProvider),
                  (''scope'', scopes authProvider),
                  (''audience'', audience authProvider)];
          w1 = w\<lparr>requests := requests w @ [PostForm (CodeURL authProvider) form]\<rparr>
      in case code_post e (CodeURL authProvider) form of
           TransportError err \<Rightarrow>
             (Exits (Sprintf ''Cannot request authentication device code - %s'' [ArgStr err]), w1)
         | Response status body \<Rightarrow>
             if status \<noteq> 200
             then (Returns (Inl (Errorf ''HTTP Request Error: Device code request returned %v (%v)''
                                   [ArgInt status, StatusText status])), w1)
             else (case body of
                     DecodeError err \<Rightarrow> (Returns (Inl (Format err [])), w1)
                   | Decoded deviceCode \<Rightarrow> (Returns (Inr deviceCode), w1)))"

definition Second :: Duration where
  "Second = 1000000000"

definition time_Add :: "Time \<Rightarrow> Duration \<Rightarrow> Time" where
  "time_Add t d = t + sint d"

definition time_Sleep :: "Duration \<Rightarrow> world \<Rightarrow> world" where
  "time_Sleep d w = w\<lparr>slept := slept w @ [d]\<rparr>"

text \<open>
  One run of the body of the polling loop, for the answer the token endpoint gives to
  this request: the loop goes on with a device code (whose interval may have changed),
  or the function returns. The progress line printed once a minute is console output
  and is left out.
\<close>

datatype poll = Again DeviceCode | Return "error + deviceTokenResponse"

definition poll_iteration :: "DeviceCode \<Rightarrow> deviceTokenResponse http_result \<Rightarrow> poll" where
  "poll_iteration deviceCode r =
     (case r of
        TransportError err \<Rightarrow> Return (Inl (Errorf ''Cannot request tokens - %s'' [ArgStr err]))
      | Response status body \<Rightarrow>
          if status \<noteq> 200 \<and> status \<noteq> 403
          then Return (Inl (Errorf ''HTTP Request Error: Token Request returned %v (%v)''
                              [ArgInt status, StatusText status]))
          else (case body of
                  DecodeError err \<Rightarrow>
                    Return (Inl (Errorf ''Cannot decode token response - %s'' [ArgStr err]))
                | Decoded tokenResponse \<Rightarrow>
                    if ErrorString tokenResponse = ''authorization_pending''
                    then Again deviceCode
                    else if ErrorString tokenResponse = ''slow_down''
                    then Again (deviceCode\<lparr>Interval := Interval deviceCode * 2\<rparr>)
                    else if ErrorString tokenResponse = ''expired_token''
                    then Return (Inl (Errorf ''The login process was not completed in time - please login again'' []))
                    else if ErrorString tokenResponse = ''access_denied''
                    then Return (Inl (Errorf ''Could not login - access was denied'' []))
                    else if ErrorString tokenResponse = ''invalid_grant''
                    then Return (Inl (Errorf ''Could not login - invalid credentials'' []))
                    else if ErrorString tokenResponse = []
                    then Return (Inr tokenResponse)
                    else Again deviceCode))"

text \<open>
  The loop itself, over the answers the token endpoint gives in the order they arrive.
  It has no bound of its own: when the answers run out before one of them ends the loop
  the poller has not returned, which is \<open>None\<close>. The device code is behind a pointer, so
  the caller sees the last interval; it is returned with the result.
\<close>

fun waitForTokens ::
  "AuthProvider \<Rightarrow> DeviceCode \<Rightarrow> deviceTokenResponse http_result list \<Rightarrow> world
   \<Rightarrow> ((error + deviceTokenResponse) \<times> DeviceCode \<times> world) option" where
  "waitForTokens authProvider deviceCode [] w = None"
| "waitForTokens authProvider deviceCode (r # rs) w =
     (let form = [(''grant_type'', grantType authProvider),
                  (''client_id'', ClientID authProvider),
                  (''device_code'', dc_DeviceCode deviceCode)];
          w1 = w\<lparr>requests := requests w @ [PostForm (TokenURL authProvider) form]\<rparr>
      in case poll_iteration deviceCode r of
           Return res \<Rightarrow> Some (res, deviceCode, w1)
         | Again deviceCode1 \<Rightarrow>
             waitForTokens authProvider deviceCode1 rs
               (time_Sleep (Interval deviceCode1 * Second) w1))"

section \<open>Identity token\<close>

text \<open>
  \<^verbatim>\<open>jwt.ParseWithClaims\<close> with the key function \<^verbatim>\<open>jwks.Keyfunc\<close>, as the two
  libraries have it: the token is parsed and its header read first, and an error there
  is returned without the key set being touched; then the key is looked up in the key
  set, which dereferences \<^verbatim>\<open>jwks\<close> and panics when it is nil; then the token is
  verified under the key set.
\<close>

definition jwt_ParseWithClaims :: "env \<Rightarrow> string \<Rightarrow> JWKS option \<Rightarrow> jwt_result outcome" where
  "jwt_ParseWithClaims e tokenString jwks =
     (case jwt_before_keys e tokenString of
        Some err \<Rightarrow> Returns (JwtError err)
      | None \<Rightarrow>
          (case jwks of
             None \<Rightarrow> Panics
           | Some keys \<Rightarrow> Returns (jwt_verify e keys tokenString)))"

text \<open>
  \<^verbatim>\<open>ParseIDToken\<close> fetches the key set, has the token checked and, for a valid token
  with the expected claims, writes four fields of the context it was given. The error of
  \<^verbatim>\<open>keyfunc.Get\<close> is overwritten before it is looked at, so a key set that could not
  be fetched goes into the check as a nil pointer. The context is behind a pointer, so
  the caller sees the writes whether or not it looks at the error; both are returned.
\<close>

definition ParseIDToken ::
  "env \<Rightarrow> deviceTokenResponse \<Rightarrow> Context \<Rightarrow> string \<Rightarrow> world
   \<Rightarrow> (error option \<times> Context) outcome \<times> world" where
  "ParseIDToken e tokenResponse ctxt jwksURL w =
     (let w1 = w\<lparr>requests := requests w @ [JwksGet jwksURL]\<rparr>;
          jwks = keyfunc_Get e jwksURL
      in case jwt_ParseWithClaims e (IDToken tokenResponse) jwks of
           Panics \<Rightarrow> (Panics, w1)
         | Exits m \<Rightarrow> (Exits m, w1)
         | Returns (JwtError err) \<Rightarrow>
             if is_ErrTokenMalformed err
             then (Returns (Some (Errorf ''Malformed ID Token Received - %s'' [ArgStr (jwt_message err)]), ctxt), w1)
             else if is_ErrTokenExpired err \<or> is_ErrTokenNotValidYet err
             then (Returns (Some (Errorf ''Expired ID Token Received - %s'' [ArgStr (jwt_message err)]), ctxt), w1)
             else (Returns (Some (Errorf ''Cannot verify ID token - %s'' [ArgStr (jwt_message err)]), ctxt), w1)
         | Returns (JwtToken None) \<Rightarrow> (Returns (None, ctxt), w1)
         | Returns (JwtToken (Some idToken)) \<Rightarrow>
             (case Claims idToken of
                Some claims \<Rightarrow>
                  if Valid idToken
                  then (Returns (None,
                          ctxt\<lparr>AccountName := claims_Name claims,
                               Email := claims_Email claims,
                               AccountNickName := claims_Nickname claims,
                               AccountID := claims_AccountID claims\<rparr>), w1)
                  else (Returns (None, ctxt), w1)
              | None \<Rightarrow> (Returns (None, ctxt), w1)))"

section \<open>The refresh path\<close>

text \<open>
  \<^verbatim>\<open>refreshAccessToken\<close> returns the pair \<^verbatim>\<open>(accessToken, err)\<close>. Where discovery
  fails, \<^verbatim>\<open>cobra.CheckErr\<close> ends the process before the \<^verbatim>\<open>return\<close> that follows it.
  The switch over the error code has no default: a code it does not list leaves the
  switch, and the function ends in its last line, \<^verbatim>\<open>return ctxt.AccessToken, nil\<close>.
  The value \<^verbatim>\<open>ParseIDToken\<close> returns is dropped; a panic in it unwinds this call
  too, before \<^verbatim>\<open>SetContext\<close>.
\<close>

definition refreshAccessToken :: "env \<Rightarrow> world \<Rightarrow> (string \<times> error option) outcome \<times> world" where
  "refreshAccessToken e w =
     (case GetActiveContext e w of
        Exits m \<Rightarrow> (Exits m, w)
      | Panics \<Rightarrow> (Panics, w)
      | Returns None \<Rightarrow> (Panics, w)
      | Returns (Some ctxt) \<Rightarrow>
          if now_at_check e > AccessTokenExpiry ctxt
          then
            if RefreshToken ctxt = []
            then (Returns ([], Some (Errorf ''Could not login - invalid credentials. Please use the login command to refresh your credentials'' [])), w)
            else (case getLoginInformation e (Some ctxt) w of
                    (Exits m, w1) \<Rightarrow> (Exits m, w1)
                  | (Panics, w1) \<Rightarrow> (Panics, w1)
                  | (Returns (Inl err), w1) \<Rightarrow>
                      (Exits (Sprintf ''Could not connect to %s - %s'' [ArgStr (URL ctxt), ArgErr err]), w1)
                  | (Returns (Inr provider), w1) \<Rightarrow>
                      (let authProvider = provider\<lparr>grantType := ''refresh_token''\<rparr>
                       in if TokenURL authProvider \<noteq> [] \<and> ClientID authProvider \<noteq> []
                          then
                            (let form = [(''grant_type'', grantType authProvider),
                                         (''client_id'', ClientID authProvider),
                                         (''refresh_token'', RefreshToken ctxt)];
                                 w2 = w1\<lparr>requests := requests w1 @ [PostForm (TokenURL authProvider) form]\<rparr>
                             in case token_post e (TokenURL authProvider) form of
                                  TransportError err \<Rightarrow>
                                    (Returns ([], Some (Errorf ''Cannot refresh access token - %s'' [ArgStr err])), w2)
                                | Response status body \<Rightarrow>
                                    (case body of
                                       DecodeError err \<Rightarrow>
                                         (Returns ([], Some (Errorf ''Cannot decode token response - %s'' [ArgStr err])), w2)
                                     | Decoded tokenResponse \<Rightarrow>
                                         if ErrorString tokenResponse = ''authorization_pending''
                                         then (Returns (AccessToken ctxt, None), w2)
                                         else if ErrorString tokenResponse = ''expired_token''
                                         then (Returns ([], Some (Errorf ''The login process was not completed in time - please login again'' [])), w2)
                                         else if ErrorString tokenResponse = ''access_denied''
                                         then (Returns ([], Some (Errorf ''Could not login - access was denied'' [])), w2)
                                         else if ErrorString tokenResponse = ''invalid_grant''
                                         then (Returns ([], Some (Errorf ''Could not login - expired credentials. Please use the login command to refresh your credentials'' [])), w2)
                                         else if ErrorString tokenResponse = []
                                         then (case Token tokenResponse of
                                                 None \<Rightarrow> (Panics, w2)
                                               | Some tok \<Rightarrow>
                                                   (let ctxt1 = ctxt\<lparr>AccessToken := tok_AccessToken tok,
                                                                     AccessTokenExpiry :=
                                                                       time_Add (now_at_update e)
                                                                         (Second * (ExpiresIn tokenResponse - 10))\<rparr>
                                                    in case ParseIDToken e tokenResponse ctxt1 (JwksURL authProvider) w2 of
                                                         (Exits m, w3) \<Rightarrow> (Exits m, w3)
                                                       | (Panics, w3) \<Rightarrow> (Panics, w3)
                                                       | (Returns (_, ctxt2), w3) \<Rightarrow>
                                                           (case SetContext ctxt2 True w3 of
                                                              (Exits m, w4) \<Rightarrow> (Exits m, w4)
                                                            | (Panics, w4) \<Rightarrow> (Panics, w4)
                                                            | (Returns _, w4) \<Rightarrow>
                                                                (Returns (AccessToken ctxt2, None), w4))))
                                         else (Returns (AccessToken ctxt, None), w2)))
                          else (Returns (AccessToken ctxt, None), w1)))
          else (Returns (AccessToken ctxt, None), w))"

section \<open>Interactive login\<close>

text \<open>
  \<^verbatim>\<open>login\<close> has no result; it returns, or the process ends. It is \<open>None\<close> when the
  poller has not returned on the answers given. The error of \<^verbatim>\<open>qrcode.New\<close> is
  dropped, so a QR code that could not be built is a nil pointer whose
  \<^verbatim>\<open>ToSmallString\<close> panics. An error from \<^verbatim>\<open>ParseIDToken\<close> ends the process before
  the context is touched, and so does a panic in it.
\<close>

definition login :: "env \<Rightarrow> world \<Rightarrow> (unit outcome \<times> world) option" where
  "login e w =
     (case GetActiveContext e w of
        Exits m \<Rightarrow> Some (Exits m, w)
      | Panics \<Rightarrow> Some (Panics, w)
      | Returns None \<Rightarrow>
          Some (Exits (Format ''Invalid config set. Please set a valid config with the config command.'' []), w)
      | Returns (Some ctxt) \<Rightarrow>
          (case getLoginInformation e (Some ctxt) w of
             (Exits m, w1) \<Rightarrow> Some (Exits m, w1)
           | (Panics, w1) \<Rightarrow> Some (Panics, w1)
           | (Returns (Inl err), w1) \<Rightarrow>
               Some (Exits (Sprintf ''Could not connect to %s to login - %s'' [ArgStr (URL ctxt), ArgErr err]), w1)
           | (Returns (Inr provider), w1) \<Rightarrow>
               (let authProvider = provider\<lparr>scopes := ''openid profile email offline_access'',
                                            grantType := ''urn:ietf:params:oauth:grant-type:device_code'',
                                            audience := ''https://api.ivcap.net/''\<rparr>
                in case requestDeviceCode e authProvider w1 of
                     (Exits m, w2) \<Rightarrow> Some (Exits m, w2)
                   | (Panics, w2) \<Rightarrow> Some (Panics, w2)
                   | (Returns (Inl err), w2) \<Rightarrow>
                       Some (Exits (Sprintf ''Cannot request authentication device code - %s'' [ArgErr err]), w2)
                   | (Returns (Inr deviceCode), w2) \<Rightarrow>
                       if \<not> qrcode_New e (VerificationURLComplete deviceCode)
                       then Some (Panics, w2)
                       else (case waitForTokens authProvider deviceCode (token_polls e) w2 of
                               None \<Rightarrow> None
                             | Some (Inl err, deviceCode1, w3) \<Rightarrow>
                                 Some (Exits (Sprintf ''Cannot request authorisation tokens - %s'' [ArgErr err]), w3)
                             | Some (Inr tokenResponse, deviceCode1, w3) \<Rightarrow>
                                 (case ParseIDToken e tokenResponse ctxt (JwksURL authProvider) w3 of
                                    (Exits m, w4) \<Rightarrow> Some (Exits m, w4)
                                  | (Panics, w4) \<Rightarrow> Some (Panics, w4)
                                  | (Returns (Some err, ctxt1), w4) \<Rightarrow>
                                      Some (Exits (Sprintf ''Cannot parse identity information - %s'' [ArgErr err]), w4)
                                  | (Returns (None, ctxt1), w4) \<Rightarrow>
                                      (case Token tokenResponse of
                                         None \<Rightarrow> Some (Panics, w4)
                                       | Some tok \<Rightarrow>
                                           Some (SetContext
                                                   (ctxt1\<lparr>AccessToken := tok_AccessToken tok,
                                                          AccessTokenExpiry :=
                                                            time_Add (now_at_update e)
                                                              (Second * (ExpiresIn tokenResponse - 10)),
                                                          RefreshToken := tok_RefreshToken tok\<rparr>)
                                                   True w4)))))))"

section \<open>Sample runs\<close>

text \<open>
  Concrete contexts, documents and answers on which the theorems below are instantiated.
  Instants are nanoseconds: the stored token of \<open>ctxt_demo\<close> expires at second 1000.
\<close>

definition ctxt_other :: Context where
  "ctxt_other =
     \<lparr>ApiVersion = 1, Name = ''other'', URL = ''https://other.example'',
      AccountID = ''acct-9'', ProviderID = ''p9'', Host = [],
      AccountName = ''Bob'', AccountNickName = ''bob'', Email = ''bob@example.org'',
      AccessToken = ''AT-other'', AccessTokenExpiry = 0, RefreshToken = ''RT-other''\<rparr>"

definition ctxt_demo :: Context where
  "ctxt_demo =
     \<lparr>ApiVersion = 1, Name = ''demo'', URL = ''https://ivcap.example'',
      AccountID = ''acct-1'', ProviderID = ''p1'', Host = [],
      AccountName = ''Ada'', AccountNickName = ''ada'', Email = ''ada@example.org'',
      AccessToken = ''AT0'', AccessTokenExpiry = 1000000000000, RefreshToken = ''RT0''\<rparr>"

definition config_demo :: Config where
  "config_demo =
     \<lparr>Version = ''v1'', ActiveContext = ''demo'',
      Contexts = [ctxt_other, ctxt_demo, ctxt_demo\<lparr>AccessToken := ''AT-shadowed''\<rparr>]\<rparr>"

definition world_demo :: world where
  "world_demo =
     \<lparr>config_path = ''config.yaml'', config_file = Stored config_demo,
      write_fault = None, requests = [], slept = []\<rparr>"

definition provider_p1 :: AuthProvider where
  "provider_p1 =
     \<lparr>ID = ''p1'', LoginURL = ''https://idp.example/login'',
      TokenURL = ''https://idp.example/token'', CodeURL = ''https://idp.example/code'',
      JwksURL = ''https://idp.example/jwks'', ClientID = ''cli'',
      audience = [], scopes = [], grantType = []\<rparr>"

definition document_of :: "iface option \<Rightarrow> AuthProvider \<Rightarrow> responseMap" where
  "document_of v provider =
     \<lparr>fault = None, version = v,
      auth = Auth \<lparr>AuthInfo_Version = [], DefaultProviderId = ''p1'',
                   AuthProviders = [(''p0'', provider\<lparr>ID := ''p0''\<rparr>), (''p1'', provider)]\<rparr>\<rparr>"

definition document_p1 :: responseMap where
  "document_p1 = document_of (Some (IInt 1)) provider_p1"

definition device_code_demo :: DeviceCode where
  "device_code_demo =
     \<lparr>dc_DeviceCode = ''DC'', UserCode = ''ABCD-EFGH'',
      VerificationURL = ''https://idp.example/activate'',
      VerificationURLComplete = ''https://idp.example/activate?user_code=ABCD-EFGH'',
      dc_ExpiresIn = 900, Interval = 5\<rparr>"

definition token_AT1 :: "int64 \<Rightarrow> deviceTokenResponse" where
  "token_AT1 expires_in =
     \<lparr>Token = Some \<lparr>tok_AccessToken = ''AT1'', tok_TokenType = ''Bearer'',
                     tok_RefreshToken = ''RT1'', tok_Expiry = 0\<rparr>,
      IDToken = ''header.payload.signature'', Scope = ''openid profile email offline_access'',
      ExpiresIn = expires_in, ErrorString = []\<rparr>"

definition token_error :: "string \<Rightarrow> deviceTokenResponse" where
  "token_error code =
     \<lparr>Token = None, IDToken = [], Scope = [], ExpiresIn = 0, ErrorString = code\<rparr>"

definition bad_signature :: jwt_result where
  "bad_signature =
     JwtError \<lparr>is_ErrTokenMalformed = False, is_ErrTokenExpired = False,
               is_ErrTokenNotValidYet = False, jwt_message = ''signature is invalid''\<rparr>"

definition good_identity :: jwt_result where
  "good_identity =
     JwtToken (Some \<lparr>Claims = Some \<lparr>claims_Name = ''Ada L'', claims_Nickname = ''al'',
                                     claims_Email = ''al@example.org'', claims_EmailVerified = True,
                                     claims_Picture = [], claims_AccountID = ''acct-2''\<rparr>,
                     Valid = True\<rparr>)"

definition env_demo ::
  "Time \<Rightarrow> responseMap http_result \<Rightarrow> deviceTokenResponse http_result
   \<Rightarrow> deviceTokenResponse http_result list \<Rightarrow> jwt_result \<Rightarrow> env" where
  "env_demo now discovery token polls verdict =
     \<lparr>contextName = [], now_at_check = now, now_at_update = now + 1000000000,
      discovery_get = (\<lambda>url. if url = ''https://ivcap.example/1/authinfo.yaml''
                              then discovery else TransportError ''no such host''),
      code_post = (\<lambda>url form. if url = ''https://idp.example/code''
                                then Response 200 (Decoded device_code_demo)
                                else TransportError ''no such host''),
      token_post = (\<lambda>url form. if url = ''https://idp.example/token''
                                 then token else TransportError ''no such host''),
      token_polls = polls,
      qrcode_New = (\<lambda>content. content \<noteq> []),
      keyfunc_Get = (\<lambda>jwksURL. if jwksURL = ''https://idp.example/jwks''
                                 then Some (KeySet jwksURL) else None),
      jwt_before_keys = (\<lambda>idToken. None),
      jwt_verify = (\<lambda>keys idToken. verdict)\<rparr>"

text \<open>The same run when the key set cannot be fetched.\<close>

definition without_keys :: "env \<Rightarrow> env" where
  "without_keys e = e\<lparr>keyfunc_Get := (\<lambda>jwksURL. None)\<rparr>"

definition device_code_huge :: DeviceCode where
  "device_code_huge = device_code_demo\<lparr>Interval := 4611686018427387904\<rparr>"

definition answer :: "int \<Rightarrow> string \<Rightarrow> deviceTokenResponse http_result" where
  "answer status code = Response status (Decoded (token_error code))"

definition poll_request :: request where
  "poll_request =
     PostForm ''https://idp.example/token''
       [(''grant_type'', []), (''client_id'', ''cli''), (''device_code'', ''DC'')]"

text \<open>
  A refresh and a login at second 2000, after the stored token has expired, against a
  discovery document that names \<open>provider_p1\<close>; the credential is updated a second later.
\<close>

definition env_refresh :: "deviceTokenResponse http_result \<Rightarrow> jwt_result \<Rightarrow> env" where
  "env_refresh token verdict =
     env_demo 2000000000000 (Response 200 (Decoded document_p1)) token [] verdict"

definition env_login :: "deviceTokenResponse http_result list \<Rightarrow> jwt_result \<Rightarrow> env" where
  "env_login polls verdict =
     env_demo 2000000000000 (Response 200 (Decoded document_p1))
       (TransportError ''not asked'') polls verdict"

text \<open>
  Three answers \<^verbatim>\<open>authorization_pending\<close>, then a token response with
  \<^verbatim>\<open>access_token\<close> AT1 and \<^verbatim>\<open>expires_in\<close> 3600.
\<close>

definition scenario_B :: "deviceTokenResponse http_result list" where
  "scenario_B =
     [answer 403 ''authorization_pending'', answer 403 ''authorization_pending'',
      answer 403 ''authorization_pending'', Response 200 (Decoded (token_AT1 3600))]"

definition provider_login :: AuthProvider where
  "provider_login =
     provider_p1\<lparr>scopes := ''openid profile email offline_access'',
                 grantType := ''urn:ietf:params:oauth:grant-type:device_code'',
                 audience := ''https://api.ivcap.net/''\<rparr>"

section \<open>Facts about the store\<close>

lemmas sample_defs =
  ctxt_other_def ctxt_demo_def config_demo_def world_demo_def provider_p1_def
  document_of_def document_p1_def device_code_demo_def token_AT1_def token_error_def
  bad_signature_def good_identity_def env_demo_def device_code_huge_def answer_def
  poll_request_def env_refresh_def env_login_def scenario_B_def provider_login_def
  without_keys_def

lemmas run_defs =
  GetActiveContext_def GetContext_def ReadConfigFile_def WriteConfigFile_def SetContext_def
  getLoginInformation_def GetDefaultProvider_def requestDeviceCode_def poll_iteration_def
  ParseIDToken_def jwt_ParseWithClaims_def time_Sleep_def time_Add_def Second_def Errorf_def Sprintf_def Let_def

lemma ReadConfigFile_requests [simp]:
  "ReadConfigFile b (w\<lparr>requests := rq\<rparr>) = ReadConfigFile b w"
  by (simp add: ReadConfigFile_def split: file_state.splits)

lemma ReadConfigFile_slept [simp]:
  "ReadConfigFile b (w\<lparr>slept := sl\<rparr>) = ReadConfigFile b w"
  by (simp add: ReadConfigFile_def split: file_state.splits)

lemma GetContext_loop_Name:
  "GetContext_loop n cs = Some d \<Longrightarrow> Name d = n"
  by (induction cs) (auto split: if_splits)

lemma SetContext_loop_first:
  "SetContext_loop ctxt cs = Some cs' \<Longrightarrow>
   \<exists>i < length cs. Name (cs ! i) = Name ctxt \<and> (\<forall>j < i. Name (cs ! j) \<noteq> Name ctxt)
      \<and> cs' = cs[i := ctxt]"
proof (induction cs arbitrary: cs')
  case Nil
  then show ?case by simp
next
  case (Cons c cs)
  show ?case
  proof (cases "Name c = Name ctxt")
    case True
    with Cons.prems have "cs' = (c # cs)[0 := ctxt]" by simp
    with True show ?thesis by (intro exI [of _ 0]) simp
  next
    case False
    with Cons.prems obtain ds where ds: "SetContext_loop ctxt cs = Some ds" and cs': "cs' = c # ds"
      by auto
    from Cons.IH [OF ds] obtain i where i: "i < length cs" "Name (cs ! i) = Name ctxt"
      "\<forall>j < i. Name (cs ! j) \<noteq> Name ctxt" "ds = cs[i := ctxt]" by blast
    show ?thesis
    proof (intro exI [of _ "Suc i"] conjI allI impI)
      fix j assume "j < Suc i"
      then show "Name ((c # cs) ! j) \<noteq> Name ctxt"
        using False i(3) by (cases j) auto
    qed (use i cs' in auto)
  qed
qed

lemma SetContext_loop_matches:
  "\<exists>c \<in> set cs. Name c = Name ctxt \<Longrightarrow> \<exists>cs'. SetContext_loop ctxt cs = Some cs'"
  by (induction cs) auto

lemma SetContext_then_GetContext_loop:
  "GetContext_loop n cs = Some d \<Longrightarrow> Name c = n \<Longrightarrow>
   \<exists>cs'. SetContext_loop c cs = Some cs' \<and> GetContext_loop n cs' = Some c"
  by (induction cs) (auto split: if_splits)

lemma GetContext_Returns:
  assumes "GetContext n0 b w = Returns (Some ctxt)"
  obtains config n where "config_file w = Stored config"
    and "n = (if n0 = [] \<and> b then ActiveContext config else n0)"
    and "GetContext_loop n (Contexts config) = Some ctxt"
    and "n \<noteq> []"
  using assms
  by (auto simp: GetContext_def ReadConfigFile_def Let_def
      split: file_state.splits if_splits option.splits)

lemma GetContext_Stored:
  assumes "config_file w = Stored config"
    and "n = (if n0 = [] \<and> b then ActiveContext config else n0)"
    and "n \<noteq> []"
    and "GetContext_loop n (Contexts config) = Some d"
  shows "GetContext n0 b w = Returns (Some d)"
  using assms(1,3,4) unfolding assms(2)
  by (simp add: GetContext_def ReadConfigFile_def Let_def split del: if_split)

text \<open>
  A context read from the store and written back under its own name is what the next
  read finds.
\<close>

lemma SetContext_after_GetContext:
  assumes get: "GetContext n0 b w = Returns (Some ctxt)"
    and name: "Name c = Name ctxt"
    and same: "config_file w3 = config_file w"
    and ok: "write_fault w3 = None"
  shows "\<exists>config'. SetContext c True w3 = (Returns (), w3\<lparr>config_file := Stored config'\<rparr>) \<and>
           GetContext n0 b (w3\<lparr>config_file := Stored config'\<rparr>) = Returns (Some c)"
proof -
  from get obtain config n where stored: "config_file w = Stored config"
    and n: "n = (if n0 = [] \<and> b then ActiveContext config else n0)"
    and loop: "GetContext_loop n (Contexts config) = Some ctxt"
    and nonempty: "n \<noteq> []"
    by (rule GetContext_Returns)
  have "Name c = n" using GetContext_loop_Name [OF loop] name by simp
  from SetContext_then_GetContext_loop [OF loop this]
  obtain cs' where set: "SetContext_loop c (Contexts config) = Some cs'"
    and get': "GetContext_loop n cs' = Some c" by blast
  let ?config = "config\<lparr>Contexts := cs'\<rparr>"
  have "SetContext c True w3 = (Returns (), w3\<lparr>config_file := Stored ?config\<rparr>)"
    using stored same ok set by (simp add: SetContext_def ReadConfigFile_def WriteConfigFile_def)
  moreover have "GetContext n0 b (w3\<lparr>config_file := Stored ?config\<rparr>) = Returns (Some c)"
  proof (rule GetContext_Stored [where config = ?config and n = n])
    show "n = (if n0 = [] \<and> b then ActiveContext ?config else n0)" using n by simp
  qed (use nonempty get' in simp_all)
  ultimately show ?thesis by blast
qed

section \<open>What each step leaves alone\<close>

lemma getLoginInformation_frame:
  "getLoginInformation e (Some c) w = (r, w1) \<Longrightarrow>
   w1 = w\<lparr>requests := requests w @ [Get (URL c @ ''/1/authinfo.yaml'')]\<rparr>"
  by (auto simp: getLoginInformation_def Let_def
      split: http_result.splits decoded.splits option.splits if_splits auth_decode.splits sum.splits)

lemma requestDeviceCode_frame:
  "requestDeviceCode e ap w = (r, w1) \<Longrightarrow>
   config_file w1 = config_file w \<and> write_fault w1 = write_fault w"
  by (auto simp: requestDeviceCode_def Let_def split: http_result.splits decoded.splits if_splits)

lemma waitForTokens_frame:
  "waitForTokens ap dc rs w = Some (res, dc', w') \<Longrightarrow>
   config_file w' = config_file w \<and> write_fault w' = write_fault w"
proof (induction rs arbitrary: dc w)
  case Nil
  then show ?case by simp
next
  case (Cons r rs)
  show ?case
  proof (cases "poll_iteration dc r")
    case (Again dc1)
    with Cons.prems have "waitForTokens ap dc1 rs
        (time_Sleep (Interval dc1 * Second)
           (w\<lparr>requests := requests w @ [PostForm (TokenURL ap)
              [(''grant_type'', grantType ap), (''client_id'', ClientID ap),
               (''device_code'', dc_DeviceCode dc)]]\<rparr>)) = Some (res, dc', w')"
      by (simp add: Let_def)
    from Cons.IH [OF this] show ?thesis by (simp add: time_Sleep_def)
  next
    case (Return x)
    with Cons.prems show ?thesis by (auto simp: Let_def)
  qed
qed

lemma ParseIDToken_frame:
  assumes "ParseIDToken e tr ctxt jwks w = (Returns (r, ctxt'), w')"
  shows "w' = w\<lparr>requests := requests w @ [JwksGet jwks]\<rparr>"
    and "Name ctxt' = Name ctxt"
    and "AccessToken ctxt' = AccessToken ctxt"
    and "AccessTokenExpiry ctxt' = AccessTokenExpiry ctxt"
    and "RefreshToken ctxt' = RefreshToken ctxt"
  using assms
  by (auto simp: ParseIDToken_def Let_def
      split: outcome.splits jwt_result.splits option.splits if_splits)

lemma ParseIDToken_world:
  "snd (ParseIDToken e tr ctxt jwks w) = w\<lparr>requests := requests w @ [JwksGet jwks]\<rparr>"
  by (auto simp: ParseIDToken_def Let_def
      split: outcome.splits jwt_result.splits option.splits if_splits)


lemma ParseIDToken_no_error:
  assumes "jwt_ParseWithClaims e (IDToken tr) (keyfunc_Get e jwks) = Returns (JwtToken t)"
  shows "\<exists>ctxt'. ParseIDToken e tr ctxt jwks w =
           (Returns (None, ctxt'), w\<lparr>requests := requests w @ [JwksGet jwks]\<rparr>)"
  using assms by (simp add: ParseIDToken_def Let_def split: option.splits)

lemma ParseIDToken_returns:
  assumes "jwt_ParseWithClaims e (IDToken tr) (keyfunc_Get e jwks) = Returns v"
  shows "\<exists>r ctxt'. ParseIDToken e tr ctxt jwks w =
           (Returns (r, ctxt'), w\<lparr>requests := requests w @ [JwksGet jwks]\<rparr>)"
  using assms by (simp add: ParseIDToken_def Let_def split: jwt_result.splits option.splits)

text \<open>
  A key set that could not be fetched and a token that gets as far as the key lookup:
  the nil key set is dereferenced.
\<close>

lemma ParseIDToken_panics:
  assumes "keyfunc_Get e jwks = None" and "jwt_before_keys e (IDToken tr) = None"
  shows "ParseIDToken e tr ctxt jwks w = (Panics, w\<lparr>requests := requests w @ [JwksGet jwks]\<rparr>)"
  using assms by (simp add: ParseIDToken_def jwt_ParseWithClaims_def Let_def)

section \<open>Arithmetic on \<^verbatim>\<open>int64\<close> without overflow\<close>

lemma sint_double:
  fixes x :: int64
  assumes "- 4611686018427387904 \<le> sint x" "sint x < 4611686018427387904"
  shows "sint (x * 2) = 2 * sint x"
proof -
  have "sint (x * 2) = signed_take_bit 63 (sint x * sint (2 :: int64))"
    by (simp add: sint_word_ariths)
  also have "sint (2 :: int64) = 2" by simp
  also have "signed_take_bit 63 (sint x * 2) = sint x * 2"
    using assms by (intro signed_take_bit_int_eq_self) simp_all
  finally show ?thesis by simp
qed

lemma sint_seconds:
  fixes x :: int64
  assumes "- 9223372026 \<le> sint x" "sint x \<le> 9223372046"
  shows "sint (Second * (x - 10)) = 1000000000 * (sint x - 10)"
proof -
  have "sint (x - 10) = signed_take_bit 63 (sint x - sint (10 :: int64))"
    by (simp add: sint_word_ariths)
  also have "sint (10 :: int64) = 10" by simp
  also have "signed_take_bit 63 (sint x - 10) = sint x - 10"
    using assms by (intro signed_take_bit_int_eq_self) simp_all
  finally have sub: "sint (x - 10) = sint x - 10" .
  have "sint (Second * (x - 10)) = signed_take_bit 63 (sint Second * sint (x - 10))"
    by (simp add: sint_word_ariths)
  also have "\<dots> = signed_take_bit 63 (1000000000 * (sint x - 10))"
    by (simp add: Second_def sub)
  also have "\<dots> = 1000000000 * (sint x - 10)"
    using assms by (intro signed_take_bit_int_eq_self) simp_all
  finally show ?thesis .
qed

section \<open>The sample runs, step by step\<close>

lemma sample_context:
  "GetActiveContext (env_demo now d t p v) world_demo = Returns (Some ctxt_demo)"
  by (simp add: sample_defs run_defs)

lemma sample_discovery:
  "getLoginInformation (env_demo now (Response 200 (Decoded document_p1)) t p v)
     (Some ctxt_demo) world_demo
   = (Returns (Inr provider_p1),
      world_demo\<lparr>requests := [Get ''https://ivcap.example/1/authinfo.yaml'']\<rparr>)"
  by (simp add: sample_defs run_defs)

lemma sample_device_code:
  "requestDeviceCode (env_demo now d t p v)
     (provider_p1\<lparr>scopes := ''openid profile email offline_access'',
                 grantType := ''urn:ietf:params:oauth:grant-type:device_code'',
                 audience := ''https://api.ivcap.net/''\<rparr>) w
   = (Returns (Inr device_code_demo),
      w\<lparr>requests := requests w @
         [PostForm ''https://idp.example/code''
            [(''client_id'', ''cli''), (''scope'', ''openid profile email offline_access''),
             (''audience'', ''https://api.ivcap.net/'')]]\<rparr>)"
  by (simp add: sample_defs run_defs)

lemma sample_polls:
  "\<exists>dc1 w3. waitForTokens ap device_code_demo scenario_B w = Some (Inr (token_AT1 3600), dc1, w3)"
  by (simp add: sample_defs run_defs)

lemma refresh_context:
  "GetActiveContext (env_refresh t v) world_demo = Returns (Some ctxt_demo)"
  by (simp add: env_refresh_def sample_context)

lemma login_context:
  "GetActiveContext (env_login p v) world_demo = Returns (Some ctxt_demo)"
  by (simp add: env_login_def sample_context)

lemma refresh_discovery:
  "getLoginInformation (env_refresh t v) (Some ctxt_demo) world_demo
   = (Returns (Inr provider_p1),
      world_demo\<lparr>requests := [Get ''https://ivcap.example/1/authinfo.yaml'']\<rparr>)"
  by (simp add: env_refresh_def sample_discovery)

lemma login_discovery:
  "getLoginInformation (env_login p v) (Some ctxt_demo) world_demo
   = (Returns (Inr provider_p1),
      world_demo\<lparr>requests := [Get ''https://ivcap.example/1/authinfo.yaml'']\<rparr>)"
  by (simp add: env_login_def sample_discovery)

lemma sample_verdict:
  "jwt_ParseWithClaims (env_demo now d t p v) idToken
     (keyfunc_Get (env_demo now d t p v) (JwksURL provider_p1)) = Returns v"
  by (simp add: env_demo_def provider_p1_def jwt_ParseWithClaims_def)

lemma refresh_verdict:
  "jwt_ParseWithClaims (env_refresh t v) idToken
     (keyfunc_Get (env_refresh t v) (JwksURL provider_p1)) = Returns v"
  by (simp add: env_refresh_def sample_verdict)

lemma login_verdict:
  "jwt_ParseWithClaims (env_login p v) idToken
     (keyfunc_Get (env_login p v) (JwksURL provider_p1)) = Returns v"
  by (simp add: env_login_def sample_verdict)

lemma login_reaches_poller:
  "\<exists>dc1 w3.
     requestDeviceCode (env_login scenario_B v)
       (provider_p1\<lparr>scopes := ''openid profile email offline_access'',
                   grantType := ''urn:ietf:params:oauth:grant-type:device_code'',
                   audience := ''https://api.ivcap.net/''\<rparr>)
       (world_demo\<lparr>requests := [Get ''https://ivcap.example/1/authinfo.yaml'']\<rparr>)
       = (Returns (Inr device_code_demo),
          world_demo\<lparr>requests := [Get ''https://ivcap.example/1/authinfo.yaml'',
             PostForm ''https://idp.example/code''
               [(''client_id'', ''cli''), (''scope'', ''openid profile email offline_access''),
                (''audience'', ''https://api.ivcap.net/'')]]\<rparr>) \<and>
     qrcode_New (env_login scenario_B v) (VerificationURLComplete device_code_demo) \<and>
     waitForTokens
       (provider_p1\<lparr>scopes := ''openid profile email offline_access'',
                   grantType := ''urn:ietf:params:oauth:grant-type:device_code'',
                   audience := ''https://api.ivcap.net/''\<rparr>)
       device_code_demo (token_polls (env_login scenario_B v))
       (world_demo\<lparr>requests := [Get ''https://ivcap.example/1/authinfo.yaml'',
             PostForm ''https://idp.example/code''
               [(''client_id'', ''cli''), (''scope'', ''openid profile email offline_access''),
                (''audience'', ''https://api.ivcap.net/'')]]\<rparr>)
       = Some (Inr (token_AT1 3600), dc1, w3)"
proof -
  let ?ap = "provider_p1\<lparr>scopes := ''openid profile email offline_access'',
                 grantType := ''urn:ietf:params:oauth:grant-type:device_code'',
                 audience := ''https://api.ivcap.net/''\<rparr>"
  let ?w1 = "world_demo\<lparr>requests := [Get ''https://ivcap.example/1/authinfo.yaml'']\<rparr>"
  let ?w2 = "world_demo\<lparr>requests := [Get ''https://ivcap.example/1/authinfo.yaml'',
             PostForm ''https://idp.example/code''
               [(''client_id'', ''cli''), (''scope'', ''openid profile email offline_access''),
                (''audience'', ''https://api.ivcap.net/'')]]\<rparr>"
  from sample_polls [of ?ap ?w2]
  obtain dc1 w3 where wait: "waitForTokens ?ap device_code_demo scenario_B ?w2
      = Some (Inr (token_AT1 3600), dc1, w3)" by blast
  have code: "requestDeviceCode (env_login scenario_B v) ?ap ?w1 = (Returns (Inr device_code_demo), ?w2)"
    using sample_device_code [of 2000000000000 _ _ scenario_B v ?w1]
    by (simp add: env_login_def)
  have qr: "qrcode_New (env_login scenario_B v) (VerificationURLComplete device_code_demo)"
    by (simp add: env_login_def env_demo_def device_code_demo_def)
  have polls: "token_polls (env_login scenario_B v) = scenario_B"
    by (simp add: env_login_def env_demo_def)
  show ?thesis
    using code qr wait unfolding polls by blast
qed

section \<open>The successful paths of refresh and login\<close>

lemma refreshAccessToken_success:
  assumes ctxt: "GetActiveContext e w = Returns (Some ctxt)"
    and expired: "AccessTokenExpiry ctxt < now_at_check e"
    and rt: "RefreshToken ctxt \<noteq> []"
    and disc: "getLoginInformation e (Some ctxt) w = (Returns (Inr provider), w1)"
    and urls: "TokenURL provider \<noteq> []" "ClientID provider \<noteq> []"
    and post: "token_post e (TokenURL provider)
           [(''grant_type'', ''refresh_token''), (''client_id'', ClientID provider),
            (''refresh_token'', RefreshToken ctxt)] = Response status (Decoded tr)"
    and noerr: "ErrorString tr = []"
    and tok: "Token tr = Some tok"
    and ok: "write_fault w = None"
    and parse: "ParseIDToken e tr
        (ctxt\<lparr>AccessToken := tok_AccessToken tok,
              AccessTokenExpiry := time_Add (now_at_update e) (Second * (ExpiresIn tr - 10))\<rparr>)
        (JwksURL provider)
        (w1\<lparr>requests := requests w1 @ [PostForm (TokenURL provider)
           [(''grant_type'', ''refresh_token''), (''client_id'', ClientID provider),
            (''refresh_token'', RefreshToken ctxt)]]\<rparr>) = (Returns (r, ctxt2), w3)"
  shows "\<exists>w'. refreshAccessToken e w = (Returns (tok_AccessToken tok, None), w') \<and>
           GetActiveContext e w' = Returns (Some ctxt2)"
proof -
  note fr = ParseIDToken_frame [OF parse]
  have w1: "w1 = w\<lparr>requests := requests w @ [Get (URL ctxt @ ''/1/authinfo.yaml'')]\<rparr>"
    by (rule getLoginInformation_frame [OF disc])
  have same: "config_file w3 = config_file w" and ok3: "write_fault w3 = None"
    using fr(1) w1 ok by simp_all
  have name: "Name ctxt2 = Name ctxt" using fr(2) by simp
  from SetContext_after_GetContext [OF ctxt [unfolded GetActiveContext_def] name same ok3]
  obtain config' where set: "SetContext ctxt2 True w3 = (Returns (), w3\<lparr>config_file := Stored config'\<rparr>)"
    and get: "GetContext (contextName e) True (w3\<lparr>config_file := Stored config'\<rparr>) = Returns (Some ctxt2)"
    by blast
  have "refreshAccessToken e w = (Returns (AccessToken ctxt2, None), w3\<lparr>config_file := Stored config'\<rparr>)"
    using ctxt expired rt disc urls post noerr tok parse set
    by (simp add: refreshAccessToken_def Let_def)
  moreover have "AccessToken ctxt2 = tok_AccessToken tok" using fr(3) by simp
  ultimately show ?thesis using get by (simp add: GetActiveContext_def)
qed

lemma login_reaches_ParseIDToken:
  assumes ctxt: "GetActiveContext e w = Returns (Some ctxt)"
    and disc: "getLoginInformation e (Some ctxt) w = (Returns (Inr provider), w1)"
    and ap: "authProvider = provider\<lparr>scopes := ''openid profile email offline_access'',
                 grantType := ''urn:ietf:params:oauth:grant-type:device_code'',
                 audience := ''https://api.ivcap.net/''\<rparr>"
    and code: "requestDeviceCode e authProvider w1 = (Returns (Inr deviceCode), w2)"
    and qr: "qrcode_New e (VerificationURLComplete deviceCode)"
    and wait: "waitForTokens authProvider deviceCode (token_polls e) w2 = Some (Inr tr, dc1, w3)"
  shows "login e w =
     (case ParseIDToken e tr ctxt (JwksURL provider) w3 of
        (Exits m, w4) \<Rightarrow> Some (Exits m, w4)
      | (Panics, w4) \<Rightarrow> Some (Panics, w4)
      | (Returns (Some err, ctxt1), w4) \<Rightarrow>
          Some (Exits (Sprintf ''Cannot parse identity information - %s'' [ArgErr err]), w4)
      | (Returns (None, ctxt1), w4) \<Rightarrow>
          (case Token tr of
             None \<Rightarrow> Some (Panics, w4)
           | Some tok \<Rightarrow>
               Some (SetContext
                       (ctxt1\<lparr>AccessToken := tok_AccessToken tok,
                              AccessTokenExpiry :=
                                time_Add (now_at_update e) (Second * (ExpiresIn tr - 10)),
                              RefreshToken := tok_RefreshToken tok\<rparr>)
                       True w4)))"
    and "config_file w3 = config_file w" and "write_fault w3 = write_fault w"
proof -
  show "login e w = (case ParseIDToken e tr ctxt (JwksURL provider) w3 of
        (Exits m, w4) \<Rightarrow> Some (Exits m, w4)
      | (Panics, w4) \<Rightarrow> Some (Panics, w4)
      | (Returns (Some err, ctxt1), w4) \<Rightarrow>
          Some (Exits (Sprintf ''Cannot parse identity information - %s'' [ArgErr err]), w4)
      | (Returns (None, ctxt1), w4) \<Rightarrow>
          (case Token tr of
             None \<Rightarrow> Some (Panics, w4)
           | Some tok \<Rightarrow>
               Some (SetContext
                       (ctxt1\<lparr>AccessToken := tok_AccessToken tok,
                              AccessTokenExpiry :=
                                time_Add (now_at_update e) (Second * (ExpiresIn tr - 10)),
                              RefreshToken := tok_RefreshToken tok\<rparr>)
                       True w4)))"
    using ctxt disc code [unfolded ap] qr wait [unfolded ap]
    by (simp add: login_def Let_def)
  have "w1 = w\<lparr>requests := requests w @ [Get (URL ctxt @ ''/1/authinfo.yaml'')]\<rparr>"
    by (rule getLoginInformation_frame [OF disc])
  then show "config_file w3 = config_file w" and "write_fault w3 = write_fault w"
    using requestDeviceCode_frame [OF code] waitForTokens_frame [OF wait] by simp_all
qed


lemma login_success:
  assumes ctxt: "GetActiveContext e w = Returns (Some ctxt)"
    and disc: "getLoginInformation e (Some ctxt) w = (Returns (Inr provider), w1)"
    and ap: "authProvider = provider\<lparr>scopes := ''openid profile email offline_access'',
                 grantType := ''urn:ietf:params:oauth:grant-type:device_code'',
                 audience := ''https://api.ivcap.net/''\<rparr>"
    and code: "requestDeviceCode e authProvider w1 = (Returns (Inr deviceCode), w2)"
    and qr: "qrcode_New e (VerificationURLComplete deviceCode)"
    and wait: "waitForTokens authProvider deviceCode (token_polls e) w2 = Some (Inr tr, dc1, w3)"
    and parse: "jwt_ParseWithClaims e (IDToken tr) (keyfunc_Get e (JwksURL provider))
                  = Returns (JwtToken t)"
    and tok: "Token tr = Some tok"
    and ok: "write_fault w = None"
  shows "\<exists>w' c. login e w = Some (Returns (), w') \<and>
           GetActiveContext e w' = Returns (Some c) \<and>
           AccessToken c = tok_AccessToken tok \<and>
           AccessTokenExpiry c = time_Add (now_at_update e) (Second * (ExpiresIn tr - 10)) \<and>
           RefreshToken c = tok_RefreshToken tok"
proof -
  note reach = login_reaches_ParseIDToken [OF ctxt disc ap code qr wait]
  from ParseIDToken_no_error [OF parse, of ctxt w3]
  obtain ctxt1 w4 where p: "ParseIDToken e tr ctxt (JwksURL provider) w3 = (Returns (None, ctxt1), w4)"
    by blast
  note fr = ParseIDToken_frame [OF p]
  let ?c = "ctxt1\<lparr>AccessToken := tok_AccessToken tok,
                   AccessTokenExpiry := time_Add (now_at_update e) (Second * (ExpiresIn tr - 10)),
                   RefreshToken := tok_RefreshToken tok\<rparr>"
  have same: "config_file w4 = config_file w" and ok4: "write_fault w4 = None"
    using fr(1) reach(2,3) ok by simp_all
  have name: "Name ?c = Name ctxt" using fr(2) by simp
  from SetContext_after_GetContext [OF ctxt [unfolded GetActiveContext_def] name same ok4]
  obtain config' where set: "SetContext ?c True w4 = (Returns (), w4\<lparr>config_file := Stored config'\<rparr>)"
    and get: "GetContext (contextName e) True (w4\<lparr>config_file := Stored config'\<rparr>) = Returns (Some ?c)"
    by blast
  have "login e w = Some (Returns (), w4\<lparr>config_file := Stored config'\<rparr>)"
    using reach(1) p tok set by simp
  with get show ?thesis
    by (intro exI [of _ "w4\<lparr>config_file := Stored config'\<rparr>"] exI [of _ ?c])
       (simp add: GetActiveContext_def)
qed

section \<open>A key set that cannot be fetched\<close>

text \<open>
  When \<^verbatim>\<open>keyfunc.Get\<close> fails and the identity token gets as far as the key lookup,
  \<^verbatim>\<open>ParseIDToken\<close> panics. After a successful token response this ends the refresh
  and the login alike, with nothing written to the store.
\<close>

lemma refreshAccessToken_nil_key_set:
  assumes ctxt: "GetActiveContext e w = Returns (Some ctxt)"
    and expired: "AccessTokenExpiry ctxt < now_at_check e"
    and rt: "RefreshToken ctxt \<noteq> []"
    and disc: "getLoginInformation e (Some ctxt) w = (Returns (Inr provider), w1)"
    and urls: "TokenURL provider \<noteq> []" "ClientID provider \<noteq> []"
    and post: "token_post e (TokenURL provider)
           [(''grant_type'', ''refresh_token''), (''client_id'', ClientID provider),
            (''refresh_token'', RefreshToken ctxt)] = Response status (Decoded tr)"
    and noerr: "ErrorString tr = []"
    and tok: "Token tr = Some tok"
    and nokeys: "keyfunc_Get e (JwksURL provider) = None"
    and parses: "jwt_before_keys e (IDToken tr) = None"
  shows "fst (refreshAccessToken e w) = Panics
         \<and> config_file (snd (refreshAccessToken e w)) = config_file w"
proof -
  have w1: "w1 = w\<lparr>requests := requests w @ [Get (URL ctxt @ ''/1/authinfo.yaml'')]\<rparr>"
    by (rule getLoginInformation_frame [OF disc])
  show ?thesis
    using ctxt expired rt disc urls post noerr tok
      ParseIDToken_panics [OF nokeys parses]
    by (simp add: refreshAccessToken_def Let_def w1)
qed

lemma login_nil_key_set:
  assumes ctxt: "GetActiveContext e w = Returns (Some ctxt)"
    and disc: "getLoginInformation e (Some ctxt) w = (Returns (Inr provider), w1)"
    and ap: "authProvider = provider\<lparr>scopes := ''openid profile email offline_access'',
                 grantType := ''urn:ietf:params:oauth:grant-type:device_code'',
                 audience := ''https://api.ivcap.net/''\<rparr>"
    and code: "requestDeviceCode e authProvider w1 = (Returns (Inr deviceCode), w2)"
    and qr: "qrcode_New e (VerificationURLComplete deviceCode)"
    and wait: "waitForTokens authProvider deviceCode (token_polls e) w2 = Some (Inr tr, dc1, w3)"
    and nokeys: "keyfunc_Get e (JwksURL provider) = None"
    and parses: "jwt_before_keys e (IDToken tr) = None"
  shows "\<exists>w'. login e w = Some (Panics, w') \<and> config_file w' = config_file w"
proof -
  note reach = login_reaches_ParseIDToken [OF ctxt disc ap code qr wait]
  show ?thesis
    using reach ParseIDToken_panics [OF nokeys parses, of ctxt w3] by simp
qed

lemma sample_nil_key_set:
  "fst (refreshAccessToken
          (without_keys (env_refresh (Response 200 (Decoded (token_AT1 3600))) good_identity))
          world_demo) = Panics"
  "map_option fst (login (without_keys (env_login scenario_B good_identity)) world_demo)
     = Some Panics"
  by (simp_all add: sample_defs run_defs refreshAccessToken_def login_def)

section \<open>The context store: overwriting one entry\<close>

text \<open>
  Claim C10. When the configuration file holds a configuration with a context of the
  name of the context handed to \<^verbatim>\<open>SetContext\<close>, the configuration handed to
  \<^verbatim>\<open>WriteConfigFile\<close> differs from the one read in a single entry, the first of that
  name, which now is the context handed over: every other entry, the number of
  entries, the active-context field and the version field are as they were read. When
  the write does not fail, that configuration is what the file holds afterwards.
\<close>

theorem SetContext_overwrites_one_entry:
  assumes stored: "config_file w = Stored config"
    and match: "\<exists>c \<in> set (Contexts config). Name c = Name ctxt"
  shows "\<exists>i written. i < length (Contexts config) \<and>
           Name (Contexts config ! i) = Name ctxt \<and>
           (\<forall>j < i. Name (Contexts config ! j) \<noteq> Name ctxt) \<and>
           SetContext ctxt failIfNotExist w = WriteConfigFile written w \<and>
           (write_fault w = None \<longrightarrow>
              SetContext ctxt failIfNotExist w = (Returns (), w\<lparr>config_file := Stored written\<rparr>)) \<and>
           Contexts written ! i = ctxt \<and>
           (\<forall>j < length (Contexts config). j \<noteq> i \<longrightarrow> Contexts written ! j = Contexts config ! j) \<and>
           length (Contexts written) = length (Contexts config) \<and>
           ActiveContext written = ActiveContext config \<and>
           Version written = Version config"
proof -
  from SetContext_loop_matches [OF match]
  obtain cs' where loop: "SetContext_loop ctxt (Contexts config) = Some cs'" by blast
  from SetContext_loop_first [OF loop]
  obtain i where i: "i < length (Contexts config)" "Name (Contexts config ! i) = Name ctxt"
    "\<forall>j < i. Name (Contexts config ! j) \<noteq> Name ctxt" "cs' = (Contexts config)[i := ctxt]"
    by blast
  let ?written = "config\<lparr>Contexts := cs'\<rparr>"
  have set: "SetContext ctxt failIfNotExist w = WriteConfigFile ?written w"
    using stored loop by (simp add: SetContext_def ReadConfigFile_def)
  have "write_fault w = None \<longrightarrow>
          SetContext ctxt failIfNotExist w = (Returns (), w\<lparr>config_file := Stored ?written\<rparr>)"
    using set by (simp add: WriteConfigFile_def)
  with set i show ?thesis
    by (intro exI [of _ i] exI [of _ ?written]) simp
qed

theorem SetContext_overwrites_one_entry_witness:
  "\<exists>i written. i < length (Contexts config_demo) \<and>
     Name (Contexts config_demo ! i) = Name (ctxt_demo\<lparr>AccessToken := ''AT1''\<rparr>) \<and>
     (\<forall>j < i. Name (Contexts config_demo ! j) \<noteq> Name (ctxt_demo\<lparr>AccessToken := ''AT1''\<rparr>)) \<and>
     SetContext (ctxt_demo\<lparr>AccessToken := ''AT1''\<rparr>) True world_demo
       = WriteConfigFile written world_demo \<and>
     (write_fault world_demo = None \<longrightarrow>
        SetContext (ctxt_demo\<lparr>AccessToken := ''AT1''\<rparr>) True world_demo
          = (Returns (), world_demo\<lparr>config_file := Stored written\<rparr>)) \<and>
     Contexts written ! i = ctxt_demo\<lparr>AccessToken := ''AT1''\<rparr> \<and>
     (\<forall>j < length (Contexts config_demo). j \<noteq> i \<longrightarrow> Contexts written ! j = Contexts config_demo ! j) \<and>
     length (Contexts written) = length (Contexts config_demo) \<and>
     ActiveContext written = ActiveContext config_demo \<and>
     Version written = Version config_demo"
proof (rule SetContext_overwrites_one_entry)
  show "config_file world_demo = Stored config_demo"
    by (simp add: world_demo_def)
  show "\<exists>c \<in> set (Contexts config_demo). Name c = Name (ctxt_demo\<lparr>AccessToken := ''AT1''\<rparr>)"
    by (simp add: config_demo_def ctxt_demo_def)
qed

section \<open>Provider discovery: the default provider and the version gate\<close>

text \<open>
  Claim C3. For a discovery response that decodes to a document which is not a fault
  response: when its version is the integer 1, its \<^verbatim>\<open>auth\<close> part decodes to an
  \<^verbatim>\<open>AuthInfo\<close> with a non-empty provider map, and the default-provider-id is a key of
  that map, \<^verbatim>\<open>getLoginInformation\<close> returns exactly the provider stored under that key;
  when its version is any other value, it returns the error that tells the user the
  client is out of date and must be updated.
\<close>

theorem getLoginInformation_default_provider:
  assumes "discovery_get e (URL ctxt @ ''/1/authinfo.yaml'') = Response status (Decoded doc)"
    and "fault doc \<noteq> Some (IBool True)"
  shows "(version doc = Some (IInt 1) \<and> auth doc = Auth authInfo \<and>
          AuthProviders authInfo \<noteq> [] \<and>
          map_of (AuthProviders authInfo) (DefaultProviderId authInfo) = Some provider
            \<longrightarrow> fst (getLoginInformation e (Some ctxt) w) = Returns (Inr provider))
       \<and> (\<forall>v. version doc = Some v \<and> v \<noteq> IInt 1
            \<longrightarrow> fst (getLoginInformation e (Some ctxt) w)
                  = Returns (Inl (Errorf ''client out of date: Please update this application'' [])))"
  using assms by (simp add: getLoginInformation_def GetDefaultProvider_def Let_def)

theorem getLoginInformation_default_provider_witness:
  "fst (getLoginInformation
          (env_demo 0 (Response 200 (Decoded document_p1)) (TransportError []) [] bad_signature)
          (Some ctxt_demo) world_demo) = Returns (Inr provider_p1)
   \<and> fst (getLoginInformation
          (env_demo 0 (Response 200 (Decoded (document_of (Some (IInt 2)) provider_p1)))
             (TransportError []) [] bad_signature)
          (Some ctxt_demo) world_demo)
       = Returns (Inl (Errorf ''client out of date: Please update this application'' []))"
proof
  let ?e = "env_demo 0 (Response 200 (Decoded document_p1)) (TransportError []) [] bad_signature"
  have "discovery_get ?e (URL ctxt_demo @ ''/1/authinfo.yaml'') = Response 200 (Decoded document_p1)"
    and "fault document_p1 \<noteq> Some (IBool True)"
    by (simp_all add: sample_defs)
  from getLoginInformation_default_provider
      [where authInfo = "\<lparr>AuthInfo_Version = [], DefaultProviderId = ''p1'',
                          AuthProviders = [(''p0'', provider_p1\<lparr>ID := ''p0''\<rparr>), (''p1'', provider_p1)]\<rparr>"
        and provider = provider_p1, OF this, THEN conjunct1]
  show "fst (getLoginInformation ?e (Some ctxt_demo) world_demo) = Returns (Inr provider_p1)"
    by (simp add: document_p1_def document_of_def)
next
  let ?d = "document_of (Some (IInt 2)) provider_p1"
  let ?e = "env_demo 0 (Response 200 (Decoded ?d)) (TransportError []) [] bad_signature"
  have "discovery_get ?e (URL ctxt_demo @ ''/1/authinfo.yaml'') = Response 200 (Decoded ?d)"
    and "fault ?d \<noteq> Some (IBool True)"
    by (simp_all add: sample_defs)
  from getLoginInformation_default_provider [OF this, THEN conjunct2, rule_format, of "IInt 2"]
  show "fst (getLoginInformation ?e (Some ctxt_demo) world_demo)
       = Returns (Inl (Errorf ''client out of date: Please update this application'' []))"
    by (simp add: document_of_def)
qed

text \<open>
  The other failures of discovery are returned to the caller, each with a message of
  its own: no transport, a fault response, a body that does not decode, a version-1
  document without providers.
\<close>

lemma getLoginInformation_returned_failures:
  "discovery_get e (URL ctxt @ ''/1/authinfo.yaml'') = TransportError err \<Longrightarrow>
     fst (getLoginInformation e (Some ctxt) w)
       = Returns (Inl (Errorf ''Cannot request login info - %s'' [ArgStr err]))"
  "discovery_get e (URL ctxt @ ''/1/authinfo.yaml'') = Response status (DecodeError err) \<Longrightarrow>
     fst (getLoginInformation e (Some ctxt) w)
       = Returns (Inl (Errorf ''unknown response from Login Service'' []))"
  "discovery_get e (URL ctxt @ ''/1/authinfo.yaml'') = Response status (Decoded doc) \<Longrightarrow>
   fault doc = Some (IBool True) \<Longrightarrow>
     fst (getLoginInformation e (Some ctxt) w)
       = Returns (Inl (Errorf ''login service has returned a fault'' []))"
  "discovery_get e (URL ctxt @ ''/1/authinfo.yaml'') = Response status (Decoded doc) \<Longrightarrow>
   fault doc \<noteq> Some (IBool True) \<Longrightarrow> version doc = Some (IInt 1) \<Longrightarrow>
   auth doc = Auth authInfo \<Longrightarrow> AuthProviders authInfo = [] \<Longrightarrow>
     fst (getLoginInformation e (Some ctxt) w)
       = Returns (Inl (Errorf ''Login Service returned invalid data (No Providers)'' []))"
  by (simp_all add: getLoginInformation_def Let_def)

text \<open>
  A document without a version key that is not a fault response ends in a panic,
  whatever else it holds.
\<close>

lemma getLoginInformation_no_version:
  assumes "discovery_get e (URL ctxt @ ''/1/authinfo.yaml'') = Response status (Decoded doc)"
    and "fault doc \<noteq> Some (IBool True)"
    and "version doc = None"
  shows "fst (getLoginInformation e (Some ctxt) w) = Panics"
  using assms by (simp add: getLoginInformation_def Let_def)

text \<open>
  Claim C7. The claim is that a discovery document without a version field makes
  \<^verbatim>\<open>getLoginInformation\<close> return an error value to its caller, as the other failures
  do. On the sample document with the version key removed the function does not return:
  it reaches \<^verbatim>\<open>panic(1)\<close>, ahead of the \<^verbatim>\<open>return\<close> of the error written for this
  case.
\<close>

theorem getLoginInformation_no_version_panics:
  "fst (getLoginInformation
          (env_demo 0 (Response 200 (Decoded (document_of None provider_p1)))
             (TransportError []) [] bad_signature)
          (Some ctxt_demo) world_demo) = Panics"
  by (simp add: sample_defs run_defs)

section \<open>The token poller: one transition per answer\<close>

text \<open>
  Claim C1, amended. In an iteration of the polling loop whose answer has status 200
  or 403 and decodes, the error code decides the step, and the iteration makes exactly
  one request. \<^verbatim>\<open>authorization_pending\<close>: the loop sleeps for the interval and goes on
  with the device code unchanged. \<^verbatim>\<open>slow_down\<close>: the interval is multiplied by two in
  \<^verbatim>\<open>int64\<close> arithmetic, the loop sleeps for the new interval and goes on; the new
  interval is exactly twice the old one when the old one is at least \<open>-2^62\<close> and
  below \<open>2^62\<close>. \<^verbatim>\<open>expired_token\<close>, \<^verbatim>\<open>access_denied\<close> and \<^verbatim>\<open>invalid_grant\<close>:
  the function returns at once, with three different errors, whatever answers would
  have followed. An empty error code: the function returns the decoded response.
\<close>

theorem waitForTokens_transitions:
  assumes r: "r = Response status (Decoded tokenResponse)"
    and status: "status = 200 \<or> status = 403"
    and w1: "w1 = w\<lparr>requests := requests w @
               [PostForm (TokenURL authProvider)
                  [(''grant_type'', grantType authProvider), (''client_id'', ClientID authProvider),
                   (''device_code'', dc_DeviceCode deviceCode)]]\<rparr>"
  shows "(ErrorString tokenResponse = ''authorization_pending'' \<longrightarrow>
            waitForTokens authProvider deviceCode (r # rs) w
              = waitForTokens authProvider deviceCode rs
                  (time_Sleep (Interval deviceCode * Second) w1))
       \<and> (ErrorString tokenResponse = ''slow_down'' \<longrightarrow>
            waitForTokens authProvider deviceCode (r # rs) w
              = waitForTokens authProvider (deviceCode\<lparr>Interval := Interval deviceCode * 2\<rparr>) rs
                  (time_Sleep (Interval deviceCode * 2 * Second) w1)
            \<and> (- 4611686018427387904 \<le> sint (Interval deviceCode) \<and>
                 sint (Interval deviceCode) < 4611686018427387904 \<longrightarrow>
                 sint (Interval deviceCode * 2) = 2 * sint (Interval deviceCode)))
       \<and> (ErrorString tokenResponse = ''expired_token'' \<longrightarrow>
            waitForTokens authProvider deviceCode (r # rs) w
              = Some (Inl (Errorf ''The login process was not completed in time - please login again'' []),
                      deviceCode, w1))
       \<and> (ErrorString tokenResponse = ''access_denied'' \<longrightarrow>
            waitForTokens authProvider deviceCode (r # rs) w
              = Some (Inl (Errorf ''Could not login - access was denied'' []), deviceCode, w1))
       \<and> (ErrorString tokenResponse = ''invalid_grant'' \<longrightarrow>
            waitForTokens authProvider deviceCode (r # rs) w
              = Some (Inl (Errorf ''Could not login - invalid credentials'' []), deviceCode, w1))
       \<and> (ErrorString tokenResponse = [] \<longrightarrow>
            waitForTokens authProvider deviceCode (r # rs) w
              = Some (Inr tokenResponse, deviceCode, w1))
       \<and> Errorf ''The login process was not completed in time - please login again'' []
            \<noteq> Errorf ''Could not login - access was denied'' []
       \<and> Errorf ''The login process was not completed in time - please login again'' []
            \<noteq> Errorf ''Could not login - invalid credentials'' []
       \<and> Errorf ''Could not login - access was denied'' []
            \<noteq> Errorf ''Could not login - invalid credentials'' []"
proof -
  have step: "waitForTokens authProvider deviceCode (r # rs) w =
      (case poll_iteration deviceCode r of
         Return res \<Rightarrow> Some (res, deviceCode, w1)
       | Again deviceCode1 \<Rightarrow>
           waitForTokens authProvider deviceCode1 rs (time_Sleep (Interval deviceCode1 * Second) w1))"
    unfolding w1 by (simp add: Let_def)
  have double: "- 4611686018427387904 \<le> sint (Interval deviceCode) \<and>
      sint (Interval deviceCode) < 4611686018427387904 \<longrightarrow>
      sint (Interval deviceCode * 2) = 2 * sint (Interval deviceCode)"
    using sint_double [of "Interval deviceCode"] by simp
  have distinct: "Errorf ''The login process was not completed in time - please login again'' []
            \<noteq> Errorf ''Could not login - access was denied'' []"
      "Errorf ''The login process was not completed in time - please login again'' []
            \<noteq> Errorf ''Could not login - invalid credentials'' []"
      "Errorf ''Could not login - access was denied'' []
            \<noteq> Errorf ''Could not login - invalid credentials'' []"
    by (simp_all add: Errorf_def)
  have pending: "ErrorString tokenResponse = ''authorization_pending'' \<Longrightarrow>
      poll_iteration deviceCode r = Again deviceCode"
    and slow: "ErrorString tokenResponse = ''slow_down'' \<Longrightarrow>
      poll_iteration deviceCode r = Again (deviceCode\<lparr>Interval := Interval deviceCode * 2\<rparr>)"
    and expired: "ErrorString tokenResponse = ''expired_token'' \<Longrightarrow>
      poll_iteration deviceCode r
        = Return (Inl (Errorf ''The login process was not completed in time - please login again'' []))"
    and denied: "ErrorString tokenResponse = ''access_denied'' \<Longrightarrow>
      poll_iteration deviceCode r = Return (Inl (Errorf ''Could not login - access was denied'' []))"
    and grant: "ErrorString tokenResponse = ''invalid_grant'' \<Longrightarrow>
      poll_iteration deviceCode r = Return (Inl (Errorf ''Could not login - invalid credentials'' []))"
    and success: "ErrorString tokenResponse = [] \<Longrightarrow>
      poll_iteration deviceCode r = Return (Inr tokenResponse)"
    using status by (auto simp: poll_iteration_def r)
  show ?thesis
    using pending slow expired denied grant success double distinct
    by (simp add: step del: waitForTokens.simps)
qed

theorem waitForTokens_transitions_witness:
  "waitForTokens provider_p1 device_code_demo
     [answer 403 ''authorization_pending'', Response 200 (Decoded (token_AT1 3600))] world_demo
     = Some (Inr (token_AT1 3600), device_code_demo,
             world_demo\<lparr>requests := [poll_request, poll_request], slept := [5000000000]\<rparr>)
   \<and> waitForTokens provider_p1 device_code_demo
     [answer 403 ''slow_down'', Response 200 (Decoded (token_AT1 3600))] world_demo
     = Some (Inr (token_AT1 3600), device_code_demo\<lparr>Interval := 10\<rparr>,
             world_demo\<lparr>requests := [poll_request, poll_request], slept := [10000000000]\<rparr>)
   \<and> sint (Interval device_code_demo * 2) = 2 * sint (Interval device_code_demo)
   \<and> waitForTokens provider_p1 device_code_demo
     [answer 403 ''expired_token'', Response 200 (Decoded (token_AT1 3600))] world_demo
     = Some (Inl (Errorf ''The login process was not completed in time - please login again'' []),
             device_code_demo, world_demo\<lparr>requests := [poll_request]\<rparr>)
   \<and> waitForTokens provider_p1 device_code_demo
     [answer 403 ''access_denied'', Response 200 (Decoded (token_AT1 3600))] world_demo
     = Some (Inl (Errorf ''Could not login - access was denied'' []),
             device_code_demo, world_demo\<lparr>requests := [poll_request]\<rparr>)
   \<and> waitForTokens provider_p1 device_code_demo
     [answer 403 ''invalid_grant'', Response 200 (Decoded (token_AT1 3600))] world_demo
     = Some (Inl (Errorf ''Could not login - invalid credentials'' []),
             device_code_demo, world_demo\<lparr>requests := [poll_request]\<rparr>)"
proof -
  let ?ok = "Response 200 (Decoded (token_AT1 3600)) :: deviceTokenResponse http_result"
  let ?w1 = "world_demo\<lparr>requests := [poll_request]\<rparr>"
  have req: "PostForm (TokenURL provider_p1)
                  [(''grant_type'', grantType provider_p1), (''client_id'', ClientID provider_p1),
                   (''device_code'', dc_DeviceCode device_code_demo)] = poll_request"
    by (simp add: provider_p1_def device_code_demo_def poll_request_def)
  have w1: "?w1 = world_demo\<lparr>requests := requests world_demo @
               [PostForm (TokenURL provider_p1)
                  [(''grant_type'', grantType provider_p1), (''client_id'', ClientID provider_p1),
                   (''device_code'', dc_DeviceCode device_code_demo)]]\<rparr>"
    by (simp add: req world_demo_def)
  note t = waitForTokens_transitions [where authProvider = provider_p1
      and deviceCode = device_code_demo and w = world_demo and ?w1.0 = ?w1 and status = 403, OF _ _ w1]
  have last: "waitForTokens provider_p1 dc [?ok] w
      = Some (Inr (token_AT1 3600), dc,
              w\<lparr>requests := requests w @
                 [PostForm (TokenURL provider_p1)
                    [(''grant_type'', grantType provider_p1), (''client_id'', ClientID provider_p1),
                     (''device_code'', dc_DeviceCode dc)]]\<rparr>)" for dc w
    using waitForTokens_transitions [where r = ?ok and status = 200
        and tokenResponse = "token_AT1 3600" and rs = "[]" and authProvider = provider_p1
        and deviceCode = dc and w = w, OF refl _ refl]
    by (simp add: token_AT1_def del: waitForTokens.simps)
  have pending: "waitForTokens provider_p1 device_code_demo [answer 403 ''authorization_pending'', ?ok] world_demo
      = waitForTokens provider_p1 device_code_demo [?ok]
          (time_Sleep (Interval device_code_demo * Second) ?w1)"
    using t [where r = "answer 403 ''authorization_pending''"
        and tokenResponse = "token_error ''authorization_pending''" and rs = "[?ok]"]
    by (simp add: answer_def token_error_def del: waitForTokens.simps)
  have slow: "waitForTokens provider_p1 device_code_demo [answer 403 ''slow_down'', ?ok] world_demo
      = waitForTokens provider_p1 (device_code_demo\<lparr>Interval := Interval device_code_demo * 2\<rparr>) [?ok]
          (time_Sleep (Interval device_code_demo * 2 * Second) ?w1)"
     and double: "sint (Interval device_code_demo * 2) = 2 * sint (Interval device_code_demo)"
    using t [where r = "answer 403 ''slow_down''"
        and tokenResponse = "token_error ''slow_down''" and rs = "[?ok]"]
    by (simp_all add: answer_def token_error_def device_code_demo_def del: waitForTokens.simps)
  have expired: "waitForTokens provider_p1 device_code_demo [answer 403 ''expired_token'', ?ok] world_demo
      = Some (Inl (Errorf ''The login process was not completed in time - please login again'' []),
              device_code_demo, ?w1)"
    using t [where r = "answer 403 ''expired_token''"
        and tokenResponse = "token_error ''expired_token''" and rs = "[?ok]"]
    by (simp add: answer_def token_error_def del: waitForTokens.simps)
  have denied: "waitForTokens provider_p1 device_code_demo [answer 403 ''access_denied'', ?ok] world_demo
      = Some (Inl (Errorf ''Could not login - access was denied'' []), device_code_demo, ?w1)"
    using t [where r = "answer 403 ''access_denied''"
        and tokenResponse = "token_error ''access_denied''" and rs = "[?ok]"]
    by (simp add: answer_def token_error_def del: waitForTokens.simps)
  have grant: "waitForTokens provider_p1 device_code_demo [answer 403 ''invalid_grant'', ?ok] world_demo
      = Some (Inl (Errorf ''Could not login - invalid credentials'' []), device_code_demo, ?w1)"
    using t [where r = "answer 403 ''invalid_grant''"
        and tokenResponse = "token_error ''invalid_grant''" and rs = "[?ok]"]
    by (simp add: answer_def token_error_def del: waitForTokens.simps)
  show ?thesis
    unfolding pending slow expired denied grant last
    by (simp add: double world_demo_def provider_p1_def device_code_demo_def poll_request_def
          time_Sleep_def Second_def)
qed

text \<open>
  The claim as first stated, that \<^verbatim>\<open>slow_down\<close> always makes the next interval exactly
  double the previous one, fails where the product leaves \<^verbatim>\<open>int64\<close>: from an interval
  of \<open>2^62\<close> seconds the next interval is \<open>-2^63\<close>, and the sleep that follows lasts 0
  nanoseconds.
\<close>

theorem waitForTokens_slow_down_wraps:
  "waitForTokens provider_p1 device_code_huge
     [answer 403 ''slow_down'', Response 200 (Decoded (token_AT1 3600))] world_demo
     = Some (Inr (token_AT1 3600), device_code_huge\<lparr>Interval := Interval device_code_huge * 2\<rparr>,
             world_demo\<lparr>requests := [poll_request, poll_request], slept := [0]\<rparr>)
   \<and> sint (Interval device_code_huge) = 4611686018427387904
   \<and> sint (Interval device_code_huge * 2) = - 9223372036854775808
   \<and> sint (Interval device_code_huge * 2) \<noteq> 2 * sint (Interval device_code_huge)"
  by (simp add: sample_defs run_defs)

section \<open>The refresh path: what a call returns\<close>

text \<open>
  Claim C2. When the active context is found in the store and the clock at the expiry
  check is before its stored expiry, \<^verbatim>\<open>refreshAccessToken\<close> returns the stored access
  token and a nil error and leaves the world as it was: no request is made and the
  configuration file is not written.
\<close>

theorem refreshAccessToken_unexpired:
  assumes "GetActiveContext e w = Returns (Some ctxt)"
    and "now_at_check e < AccessTokenExpiry ctxt"
  shows "refreshAccessToken e w = (Returns (AccessToken ctxt, None), w)"
  using assms by (simp add: refreshAccessToken_def)

theorem refreshAccessToken_unexpired_witness:
  "refreshAccessToken
     (env_demo 500000000000 (TransportError ''offline'') (TransportError ''offline'') [] bad_signature)
     world_demo
   = (Returns (AccessToken ctxt_demo, None), world_demo)"
proof (rule refreshAccessToken_unexpired)
  show "GetActiveContext
          (env_demo 500000000000 (TransportError ''offline'') (TransportError ''offline'') [] bad_signature)
          world_demo = Returns (Some ctxt_demo)"
    by (rule sample_context)
  show "now_at_check
          (env_demo 500000000000 (TransportError ''offline'') (TransportError ''offline'') [] bad_signature)
        < AccessTokenExpiry ctxt_demo"
    by (simp add: env_demo_def ctxt_demo_def)
qed

text \<open>
  Claim C5. When the stored token has expired, a refresh token is stored, discovery
  gives a provider with a token URL and a client id, and the token endpoint answers
  with the error code \<^verbatim>\<open>invalid_grant\<close>, \<^verbatim>\<open>refreshAccessToken\<close> returns an empty
  token with the error that tells the user to use the login command, and the
  configuration file is as it was before the call.
\<close>

theorem refreshAccessToken_invalid_grant:
  assumes "GetActiveContext e w = Returns (Some ctxt)"
    and "AccessTokenExpiry ctxt < now_at_check e"
    and "RefreshToken ctxt \<noteq> []"
    and "getLoginInformation e (Some ctxt) w = (Returns (Inr provider), w1)"
    and "TokenURL provider \<noteq> []" and "ClientID provider \<noteq> []"
    and "token_post e (TokenURL provider)
           [(''grant_type'', ''refresh_token''), (''client_id'', ClientID provider),
            (''refresh_token'', RefreshToken ctxt)] = Response status (Decoded tokenResponse)"
    and "ErrorString tokenResponse = ''invalid_grant''"
  shows "fst (refreshAccessToken e w) =
           Returns ([], Some (Errorf ''Could not login - expired credentials. Please use the login command to refresh your credentials'' []))
         \<and> config_file (snd (refreshAccessToken e w)) = config_file w"
  using assms getLoginInformation_frame [OF assms(4)]
  by (simp add: refreshAccessToken_def Let_def)

theorem refreshAccessToken_invalid_grant_witness:
  "fst (refreshAccessToken
          (env_refresh (answer 403 ''invalid_grant'') good_identity) world_demo) =
     Returns ([], Some (Errorf ''Could not login - expired credentials. Please use the login command to refresh your credentials'' []))
   \<and> config_file (snd (refreshAccessToken
          (env_refresh (answer 403 ''invalid_grant'') good_identity) world_demo))
     = config_file world_demo"
proof (rule refreshAccessToken_invalid_grant [where provider = provider_p1 and ctxt = ctxt_demo])
  let ?e = "env_refresh (answer 403 ''invalid_grant'') good_identity"
  show "GetActiveContext ?e world_demo = Returns (Some ctxt_demo)"
    by (rule refresh_context)
  show "AccessTokenExpiry ctxt_demo < now_at_check ?e"
    by (simp add: env_refresh_def env_demo_def ctxt_demo_def)
  show "RefreshToken ctxt_demo \<noteq> []"
    by (simp add: ctxt_demo_def)
  show "getLoginInformation ?e (Some ctxt_demo) world_demo
        = (Returns (Inr provider_p1),
           world_demo\<lparr>requests := [Get ''https://ivcap.example/1/authinfo.yaml'']\<rparr>)"
    by (rule refresh_discovery)
  show "TokenURL provider_p1 \<noteq> []" and "ClientID provider_p1 \<noteq> []"
    by (simp_all add: provider_p1_def)
  show "token_post ?e (TokenURL provider_p1)
           [(''grant_type'', ''refresh_token''), (''client_id'', ClientID provider_p1),
            (''refresh_token'', RefreshToken ctxt_demo)]
        = Response 403 (Decoded (token_error ''invalid_grant''))"
    by (simp add: env_refresh_def env_demo_def provider_p1_def answer_def)
  show "ErrorString (token_error ''invalid_grant'') = ''invalid_grant''"
    by (simp add: token_error_def)
qed

text \<open>
  The switch of \<^verbatim>\<open>refreshAccessToken\<close> lists four codes besides the empty one. Any
  other code, \<^verbatim>\<open>authorization_pending\<close> among them, leaves the switch, and the call
  returns the stored token with a nil error.
\<close>

lemma refreshAccessToken_unlisted_code:
  assumes "GetActiveContext e w = Returns (Some ctxt)"
    and "AccessTokenExpiry ctxt < now_at_check e"
    and "RefreshToken ctxt \<noteq> []"
    and "getLoginInformation e (Some ctxt) w = (Returns (Inr provider), w1)"
    and "TokenURL provider \<noteq> []" and "ClientID provider \<noteq> []"
    and "token_post e (TokenURL provider)
           [(''grant_type'', ''refresh_token''), (''client_id'', ClientID provider),
            (''refresh_token'', RefreshToken ctxt)] = Response status (Decoded tokenResponse)"
    and "ErrorString tokenResponse \<notin> {''expired_token'', ''access_denied'', ''invalid_grant'', []}"
  shows "fst (refreshAccessToken e w) = Returns (AccessToken ctxt, None)"
  using assms by (simp add: refreshAccessToken_def Let_def)

text \<open>
  Claim C8. The claim is that a refresh whose token response has a non-empty error
  code other than \<^verbatim>\<open>authorization_pending\<close> surfaces an error. On the sample store,
  whose token AT0 expired at second 1000, a refresh at second 2000 that is answered
  with \<^verbatim>\<open>slow_down\<close> returns AT0 with a nil error.
\<close>

theorem refreshAccessToken_swallows_slow_down:
  "fst (refreshAccessToken (env_refresh (answer 400 ''slow_down'') good_identity) world_demo)
     = Returns (''AT0'', None)
   \<and> GetActiveContext (env_refresh (answer 400 ''slow_down'') good_identity) world_demo
     = Returns (Some ctxt_demo)
   \<and> AccessToken ctxt_demo = ''AT0''
   \<and> AccessTokenExpiry ctxt_demo < now_at_check (env_refresh (answer 400 ''slow_down'') good_identity)"
  by (simp add: sample_defs run_defs refreshAccessToken_def)

text \<open>
  Claim C9. When the stored token has expired, a refresh token is stored and discovery
  gives a provider whose token URL or client id is empty, \<^verbatim>\<open>refreshAccessToken\<close>
  returns the stored, expired access token with a nil error; the only request of the
  call is the discovery request, so the token endpoint is not asked, and the
  configuration file is not written.
\<close>

theorem refreshAccessToken_no_token_endpoint:
  assumes "GetActiveContext e w = Returns (Some ctxt)"
    and "AccessTokenExpiry ctxt < now_at_check e"
    and "RefreshToken ctxt \<noteq> []"
    and "getLoginInformation e (Some ctxt) w = (Returns (Inr provider), w1)"
    and "TokenURL provider = [] \<or> ClientID provider = []"
  shows "refreshAccessToken e w = (Returns (AccessToken ctxt, None), w1) \<and>
         requests w1 = requests w @ [Get (URL ctxt @ ''/1/authinfo.yaml'')] \<and>
         config_file w1 = config_file w"
  using assms getLoginInformation_frame [OF assms(4)]
  by (auto simp add: refreshAccessToken_def)

theorem refreshAccessToken_no_token_endpoint_witness:
  "refreshAccessToken
     (env_demo 2000000000000
        (Response 200 (Decoded (document_of (Some (IInt 1)) (provider_p1\<lparr>TokenURL := []\<rparr>))))
        (Response 200 (Decoded (token_AT1 3600))) [] good_identity)
     world_demo
   = (Returns (AccessToken ctxt_demo, None),
      world_demo\<lparr>requests := [Get ''https://ivcap.example/1/authinfo.yaml'']\<rparr>) \<and>
   requests (world_demo\<lparr>requests := [Get ''https://ivcap.example/1/authinfo.yaml'']\<rparr>)
     = requests world_demo @ [Get (URL ctxt_demo @ ''/1/authinfo.yaml'')] \<and>
   config_file (world_demo\<lparr>requests := [Get ''https://ivcap.example/1/authinfo.yaml'']\<rparr>)
     = config_file world_demo"
proof (rule refreshAccessToken_no_token_endpoint [where provider = "provider_p1\<lparr>TokenURL := []\<rparr>"])
  let ?e = "env_demo 2000000000000
        (Response 200 (Decoded (document_of (Some (IInt 1)) (provider_p1\<lparr>TokenURL := []\<rparr>))))
        (Response 200 (Decoded (token_AT1 3600))) [] good_identity"
  show "GetActiveContext ?e world_demo = Returns (Some ctxt_demo)"
    by (rule sample_context)
  show "AccessTokenExpiry ctxt_demo < now_at_check ?e"
    by (simp add: env_demo_def ctxt_demo_def)
  show "RefreshToken ctxt_demo \<noteq> []"
    by (simp add: ctxt_demo_def)
  show "getLoginInformation ?e (Some ctxt_demo) world_demo
        = (Returns (Inr (provider_p1\<lparr>TokenURL := []\<rparr>)),
           world_demo\<lparr>requests := [Get ''https://ivcap.example/1/authinfo.yaml'']\<rparr>)"
    by (simp add: sample_defs run_defs)
  show "TokenURL (provider_p1\<lparr>TokenURL := []\<rparr>) = [] \<or> ClientID (provider_p1\<lparr>TokenURL := []\<rparr>) = []"
    by simp
qed

section \<open>The persisted expiry\<close>

text \<open>
  Claim C4, amended. Take a token response with an empty error code that carries an
  access token and whose \<^verbatim>\<open>expires_in\<close> lies between \<open>-9223372026\<close> and \<open>9223372046\<close>,
  so that \<^verbatim>\<open>expires_in - 10\<close> seconds is an \<^verbatim>\<open>int64\<close> number of nanoseconds, a
  check of its identity token that returns a verdict (it does not panic on a nil key
  set), and a store that can be written. In the refresh flow, whatever the verdict,
  and in the login flow when the verdict is not an error, the call returns normally
  and the context read back from the store has the expiry: clock at the update, plus
  \<^verbatim>\<open>expires_in\<close> seconds, minus 10 seconds.
\<close>

theorem persisted_expiry_margin:
  assumes ctxt: "GetActiveContext e w = Returns (Some ctxt)"
    and disc: "getLoginInformation e (Some ctxt) w = (Returns (Inr provider), w1)"
    and tok: "Token tokenResponse = Some tok"
    and ok: "write_fault w = None"
    and range: "- 9223372026 \<le> sint (ExpiresIn tokenResponse)"
               "sint (ExpiresIn tokenResponse) \<le> 9223372046"
    and verdict: "jwt_ParseWithClaims e (IDToken tokenResponse) (keyfunc_Get e (JwksURL provider))
                    = Returns v"
  shows "(AccessTokenExpiry ctxt < now_at_check e \<and> RefreshToken ctxt \<noteq> [] \<and>
          TokenURL provider \<noteq> [] \<and> ClientID provider \<noteq> [] \<and>
          token_post e (TokenURL provider)
            [(''grant_type'', ''refresh_token''), (''client_id'', ClientID provider),
             (''refresh_token'', RefreshToken ctxt)] = Response status (Decoded tokenResponse) \<and>
          ErrorString tokenResponse = []
          \<longrightarrow> (\<exists>w' c. refreshAccessToken e w = (Returns (tok_AccessToken tok, None), w') \<and>
                 GetActiveContext e w' = Returns (Some c) \<and>
                 AccessTokenExpiry c
                   = now_at_update e + 1000000000 * (sint (ExpiresIn tokenResponse) - 10)))
       \<and> (requestDeviceCode e
             (provider\<lparr>scopes := ''openid profile email offline_access'',
                       grantType := ''urn:ietf:params:oauth:grant-type:device_code'',
                       audience := ''https://api.ivcap.net/''\<rparr>) w1
            = (Returns (Inr deviceCode), w2) \<and>
          qrcode_New e (VerificationURLComplete deviceCode) \<and>
          waitForTokens
             (provider\<lparr>scopes := ''openid profile email offline_access'',
                       grantType := ''urn:ietf:params:oauth:grant-type:device_code'',
                       audience := ''https://api.ivcap.net/''\<rparr>)
             deviceCode (token_polls e) w2 = Some (Inr tokenResponse, deviceCode1, w3) \<and>
          v = JwtToken t
          \<longrightarrow> (\<exists>w' c. login e w = Some (Returns (), w') \<and>
                 GetActiveContext e w' = Returns (Some c) \<and>
                 AccessTokenExpiry c
                   = now_at_update e + 1000000000 * (sint (ExpiresIn tokenResponse) - 10)))"
proof (intro conjI impI)
  let ?expiry = "time_Add (now_at_update e) (Second * (ExpiresIn tokenResponse - 10))"
  have expiry: "?expiry = now_at_update e + 1000000000 * (sint (ExpiresIn tokenResponse) - 10)"
    using sint_seconds [OF range] by (simp add: time_Add_def)
  {
    assume a: "AccessTokenExpiry ctxt < now_at_check e \<and> RefreshToken ctxt \<noteq> [] \<and>
          TokenURL provider \<noteq> [] \<and> ClientID provider \<noteq> [] \<and>
          token_post e (TokenURL provider)
            [(''grant_type'', ''refresh_token''), (''client_id'', ClientID provider),
             (''refresh_token'', RefreshToken ctxt)] = Response status (Decoded tokenResponse) \<and>
          ErrorString tokenResponse = []"
    let ?ctxt1 = "ctxt\<lparr>AccessToken := tok_AccessToken tok, AccessTokenExpiry := ?expiry\<rparr>"
    let ?w2 = "w1\<lparr>requests := requests w1 @ [PostForm (TokenURL provider)
           [(''grant_type'', ''refresh_token''), (''client_id'', ClientID provider),
            (''refresh_token'', RefreshToken ctxt)]]\<rparr>"
    from ParseIDToken_returns [OF verdict, of ?ctxt1 ?w2]
    obtain r ctxt2 w3' where p: "ParseIDToken e tokenResponse ?ctxt1 (JwksURL provider) ?w2
        = (Returns (r, ctxt2), w3')"
      by blast
    from a have x: "AccessTokenExpiry ctxt < now_at_check e" and rt: "RefreshToken ctxt \<noteq> []"
      and u: "TokenURL provider \<noteq> []" "ClientID provider \<noteq> []"
      and post: "token_post e (TokenURL provider)
            [(''grant_type'', ''refresh_token''), (''client_id'', ClientID provider),
             (''refresh_token'', RefreshToken ctxt)] = Response status (Decoded tokenResponse)"
      and noerr: "ErrorString tokenResponse = []"
      by simp_all
    have "\<exists>w'. refreshAccessToken e w = (Returns (tok_AccessToken tok, None), w') \<and>
           GetActiveContext e w' = Returns (Some ctxt2)"
      by (rule refreshAccessToken_success [OF ctxt x rt disc u post noerr tok ok p])
    moreover have "AccessTokenExpiry ctxt2 = ?expiry"
      using ParseIDToken_frame(4) [OF p] by simp
    ultimately show "\<exists>w' c. refreshAccessToken e w = (Returns (tok_AccessToken tok, None), w') \<and>
                 GetActiveContext e w' = Returns (Some c) \<and>
                 AccessTokenExpiry c
                   = now_at_update e + 1000000000 * (sint (ExpiresIn tokenResponse) - 10)"
      using expiry by auto
  }
  {
    let ?ap = "provider\<lparr>scopes := ''openid profile email offline_access'',
                       grantType := ''urn:ietf:params:oauth:grant-type:device_code'',
                       audience := ''https://api.ivcap.net/''\<rparr>"
    assume a: "requestDeviceCode e ?ap w1 = (Returns (Inr deviceCode), w2) \<and>
          qrcode_New e (VerificationURLComplete deviceCode) \<and>
          waitForTokens ?ap deviceCode (token_polls e) w2 = Some (Inr tokenResponse, deviceCode1, w3) \<and>
          v = JwtToken t"
    from a have c: "requestDeviceCode e ?ap w1 = (Returns (Inr deviceCode), w2)"
      and q: "qrcode_New e (VerificationURLComplete deviceCode)"
      and wt: "waitForTokens ?ap deviceCode (token_polls e) w2 = Some (Inr tokenResponse, deviceCode1, w3)"
      and j: "jwt_ParseWithClaims e (IDToken tokenResponse) (keyfunc_Get e (JwksURL provider))
                = Returns (JwtToken t)"
      using verdict by simp_all
    have "\<exists>w' c. login e w = Some (Returns (), w') \<and>
           GetActiveContext e w' = Returns (Some c) \<and>
           AccessToken c = tok_AccessToken tok \<and>
           AccessTokenExpiry c = ?expiry \<and>
           RefreshToken c = tok_RefreshToken tok"
      by (rule login_success [OF ctxt disc refl c q wt j tok ok])
    then show "\<exists>w' c. login e w = Some (Returns (), w') \<and>
                 GetActiveContext e w' = Returns (Some c) \<and>
                 AccessTokenExpiry c
                   = now_at_update e + 1000000000 * (sint (ExpiresIn tokenResponse) - 10)"
      using expiry by auto
  }
qed

text \<open>
  The instance of the claim: with \<^verbatim>\<open>expires_in\<close> 3600 and the update at second 2001
  the persisted expiry is 3590 seconds later, in the refresh flow and in the login flow
  of three pending answers followed by the token.
\<close>

theorem persisted_expiry_margin_witness:
  "(\<exists>w' c. refreshAccessToken (env_refresh (Response 200 (Decoded (token_AT1 3600))) good_identity)
              world_demo = (Returns (''AT1'', None), w') \<and>
           GetActiveContext (env_refresh (Response 200 (Decoded (token_AT1 3600))) good_identity) w'
             = Returns (Some c) \<and>
           AccessTokenExpiry c = 2001000000000 + 3590 * 1000000000)
   \<and> (\<exists>w' c. login (env_login scenario_B good_identity) world_demo = Some (Returns (), w') \<and>
           GetActiveContext (env_login scenario_B good_identity) w' = Returns (Some c) \<and>
           AccessTokenExpiry c = 2001000000000 + 3590 * 1000000000)"
proof
  let ?e = "env_refresh (Response 200 (Decoded (token_AT1 3600))) good_identity"
  let ?tok = "\<lparr>tok_AccessToken = ''AT1'', tok_TokenType = ''Bearer'',
               tok_RefreshToken = ''RT1'', tok_Expiry = 0\<rparr>"
  have tok: "Token (token_AT1 3600) = Some ?tok" by (simp add: token_AT1_def)
  have ok: "write_fault world_demo = None" by (simp add: world_demo_def)
  have range: "- 9223372026 \<le> sint (ExpiresIn (token_AT1 3600))"
    "sint (ExpiresIn (token_AT1 3600)) \<le> 9223372046"
    by (simp_all add: token_AT1_def)
  have path: "AccessTokenExpiry ctxt_demo < now_at_check ?e \<and> RefreshToken ctxt_demo \<noteq> [] \<and>
          TokenURL provider_p1 \<noteq> [] \<and> ClientID provider_p1 \<noteq> [] \<and>
          token_post ?e (TokenURL provider_p1)
            [(''grant_type'', ''refresh_token''), (''client_id'', ClientID provider_p1),
             (''refresh_token'', RefreshToken ctxt_demo)] = Response 200 (Decoded (token_AT1 3600)) \<and>
          ErrorString (token_AT1 3600) = []"
    by (simp add: env_refresh_def env_demo_def ctxt_demo_def provider_p1_def token_AT1_def)
  from persisted_expiry_margin
         [OF refresh_context refresh_discovery tok ok range refresh_verdict,
          THEN conjunct1, rule_format, OF path]
  show "\<exists>w' c. refreshAccessToken ?e world_demo = (Returns (''AT1'', None), w') \<and>
           GetActiveContext ?e w' = Returns (Some c) \<and>
           AccessTokenExpiry c = 2001000000000 + 3590 * 1000000000"
    by (simp add: token_AT1_def env_refresh_def env_demo_def)
next
  let ?e = "env_login scenario_B good_identity"
  let ?tok = "\<lparr>tok_AccessToken = ''AT1'', tok_TokenType = ''Bearer'',
               tok_RefreshToken = ''RT1'', tok_Expiry = 0\<rparr>"
  have tok: "Token (token_AT1 3600) = Some ?tok" by (simp add: token_AT1_def)
  have ok: "write_fault world_demo = None" by (simp add: world_demo_def)
  have range: "- 9223372026 \<le> sint (ExpiresIn (token_AT1 3600))"
    "sint (ExpiresIn (token_AT1 3600)) \<le> 9223372046"
    by (simp_all add: token_AT1_def)
  have verdict: "good_identity
      = JwtToken (Some \<lparr>Claims = Some \<lparr>claims_Name = ''Ada L'', claims_Nickname = ''al'',
                                     claims_Email = ''al@example.org'', claims_EmailVerified = True,
                                     claims_Picture = [], claims_AccountID = ''acct-2''\<rparr>,
                     Valid = True\<rparr>)"
    by (simp add: good_identity_def)
  from login_reaches_poller [of good_identity] obtain dc1 w3 where
    reach: "requestDeviceCode ?e
       (provider_p1\<lparr>scopes := ''openid profile email offline_access'',
                   grantType := ''urn:ietf:params:oauth:grant-type:device_code'',
                   audience := ''https://api.ivcap.net/''\<rparr>)
       (world_demo\<lparr>requests := [Get ''https://ivcap.example/1/authinfo.yaml'']\<rparr>)
       = (Returns (Inr device_code_demo),
          world_demo\<lparr>requests := [Get ''https://ivcap.example/1/authinfo.yaml'',
             PostForm ''https://idp.example/code''
               [(''client_id'', ''cli''), (''scope'', ''openid profile email offline_access''),
                (''audience'', ''https://api.ivcap.net/'')]]\<rparr>) \<and>
     qrcode_New ?e (VerificationURLComplete device_code_demo) \<and>
     waitForTokens
       (provider_p1\<lparr>scopes := ''openid profile email offline_access'',
                   grantType := ''urn:ietf:params:oauth:grant-type:device_code'',
                   audience := ''https://api.ivcap.net/''\<rparr>)
       device_code_demo (token_polls ?e)
       (world_demo\<lparr>requests := [Get ''https://ivcap.example/1/authinfo.yaml'',
             PostForm ''https://idp.example/code''
               [(''client_id'', ''cli''), (''scope'', ''openid profile email offline_access''),
                (''audience'', ''https://api.ivcap.net/'')]]\<rparr>)
       = Some (Inr (token_AT1 3600), dc1, w3)"
    by blast
  from persisted_expiry_margin
         [OF login_context login_discovery tok ok range login_verdict,
          THEN conjunct2, rule_format, OF conjI [OF reach [THEN conjunct1]
             conjI [OF reach [THEN conjunct2, THEN conjunct1]
               conjI [OF reach [THEN conjunct2, THEN conjunct2] verdict]]]]
  show "\<exists>w' c. login ?e world_demo = Some (Returns (), w') \<and>
           GetActiveContext ?e w' = Returns (Some c) \<and>
           AccessTokenExpiry c = 2001000000000 + 3590 * 1000000000"
    by (simp add: token_AT1_def env_login_def env_demo_def)
qed

text \<open>
  The claim as first stated, for every successful token response, fails where
  \<^verbatim>\<open>expires_in - 10\<close> seconds is more nanoseconds than an \<^verbatim>\<open>int64\<close> holds: with
  \<^verbatim>\<open>expires_in\<close> 9223372047 and the update at second 2001 the refresh persists an
  expiry 292 years in the past, where the claim asks for second 9223374038.
\<close>

theorem persisted_expiry_overflow:
  "fst (refreshAccessToken
          (env_refresh (Response 200 (Decoded (token_AT1 9223372047))) bad_signature) world_demo)
     = Returns (''AT1'', None)
   \<and> GetActiveContext
         (env_refresh (Response 200 (Decoded (token_AT1 9223372047))) bad_signature)
         (snd (refreshAccessToken
                 (env_refresh (Response 200 (Decoded (token_AT1 9223372047))) bad_signature)
                 world_demo))
     = Returns (Some (ctxt_demo\<lparr>AccessToken := ''AT1'',
                                  AccessTokenExpiry := - 9223370035709551616\<rparr>))
   \<and> now_at_update (env_refresh (Response 200 (Decoded (token_AT1 9223372047))) bad_signature)
       + 1000000000 * (sint (ExpiresIn (token_AT1 9223372047)) - 10)
     = 9223374038000000000
   \<and> AccessTokenExpiry (ctxt_demo\<lparr>AccessToken := ''AT1'',
                                     AccessTokenExpiry := - 9223370035709551616\<rparr>)
     \<noteq> now_at_update (env_refresh (Response 200 (Decoded (token_AT1 9223372047))) bad_signature)
       + 1000000000 * (sint (ExpiresIn (token_AT1 9223372047)) - 10)"
  by (simp add: sample_defs run_defs refreshAccessToken_def)

section \<open>A refused identity token\<close>




end
